theory Spec2Isabelle
  imports Complex_Main
begin

section \<open>Data model of \<^verbatim>\<open>bruteforce.py\<close>\<close>

text \<open>
  Python floats are modelled as real numbers: rounding, overflow and the special values of
  IEEE arithmetic are outside the model.  A division whose divisor is zero has no value in
  the model: the computation that performs it is \<open>Inl DivisionByZero\<close>, and the model does
  not follow it further.  In the Python, a division of Python numbers raises
  \<^verbatim>\<open>ZeroDivisionError\<close> there and the run stops; a division of NumPy scalars (the one of
  the overshoot branch, whose operands come from \<^verbatim>\<open>np.sqrt\<close>) gives \<^verbatim>\<open>nan\<close> or \<^verbatim>\<open>inf\<close> with
  a runtime warning, and the run goes on with these values in every later state.  So
  \<open>Inl DivisionByZero\<close> says that a division by zero occurs, not how the interpreter goes on.
\<close>

datatype fault = DivisionByZero | IndexOutOfRange | NoneAccess

definition py_div :: "real \<Rightarrow> real \<Rightarrow> fault + real" where
  "py_div a b = (if b = 0 then Inl DivisionByZero else Inr (a / b))"

definition bind_err :: "fault + 'a \<Rightarrow> ('a \<Rightarrow> fault + 'b) \<Rightarrow> fault + 'b" where
  "bind_err r f = (case r of Inl e \<Rightarrow> Inl e | Inr x \<Rightarrow> f x)"

record RocketState =
  altitude :: real
  velocity :: real
  time :: real

record Trajectory =
  states :: "RocketState list"

definition append_state :: "Trajectory \<Rightarrow> RocketState \<Rightarrow> Trajectory" where
  "append_state tr st = tr\<lparr>states := states tr @ [st]\<rparr>"

text \<open>\<^verbatim>\<open>calculate_gravity\<close>: \<^verbatim>\<open>-G * M / ((R + altitude) ** 2)\<close> with the Moon's constants.\<close>

definition G_const :: real where
  "G_const = 66743 / 10 ^ 15"

definition M_moon :: real where
  "M_moon = 734767309 * 10 ^ 14"

definition R_moon :: real where
  "R_moon = 1737100"

definition calculate_gravity :: "real \<Rightarrow> fault + real" where
  "calculate_gravity h = py_div (- G_const * M_moon) ((R_moon + h) ^ 2)"

text \<open>
  \<^verbatim>\<open>calculate_landing_cost\<close>: \<^verbatim>\<open>trajectory.states[-1]\<close> raises \<^verbatim>\<open>IndexError\<close> on an empty
  list; otherwise the cost is the final time plus twice the absolute final velocity.
\<close>

definition final_state :: "Trajectory \<Rightarrow> fault + RocketState" where
  "final_state tr = (if states tr = [] then Inl IndexOutOfRange else Inr (last (states tr)))"

definition calculate_landing_cost :: "Trajectory \<Rightarrow> fault + real" where
  "calculate_landing_cost tr =
     bind_err (final_state tr) (\<lambda>fs.
       let time_cost = time fs;
           velocity_cost = \<bar>velocity fs\<bar>
       in Inr (time_cost + 2 * velocity_cost))"

section \<open>The descent simulation\<close>

text \<open>
  The variables that \<^verbatim>\<open>simulate_landing\<close> updates inside its loop: the current state, the
  trajectory, the maximum acceleration \<^verbatim>\<open>max_thrust\<close> (rescaled by the overshoot branch and
  kept for the following steps) and the module's global \<^verbatim>\<open>solution_found\<close>.
\<close>

record sim_state =
  current_state :: RocketState
  trajectory :: Trajectory
  max_thrust :: real
  solution_found :: bool

text \<open>Which of the two \<^verbatim>\<open>break\<close> statements left the loop.\<close>

datatype stop = Touchdown | Safety_break

text \<open>
  The thrust tier (lines 94 to 102) and the overshoot branch (lines 108 to 112); the
  latter returns the acceleration together with the rescaled \<^verbatim>\<open>max_thrust\<close>.
\<close>

definition select_thrust :: "real \<Rightarrow> real \<Rightarrow> real \<Rightarrow> real \<Rightarrow> real \<Rightarrow> real \<Rightarrow> real" where
  "select_thrust h v required_distance height_change target_velocity mt =
     (if h \<le> required_distance * height_change then mt
      else if v < target_velocity then mt * 0.8
      else 0)"

definition overshoot_guard :: "real \<Rightarrow> real \<Rightarrow> real \<Rightarrow> real \<Rightarrow> real \<Rightarrow> real \<Rightarrow> fault + real \<times> real" where
  "overshoot_guard v dt g thrust target_velocity mt =
     (let acceleration = thrust + g in
      if v + acceleration * dt > 0 then
        (let velocity_error = target_velocity - v in
         bind_err (py_div velocity_error \<bar>velocity_error\<bar>) (\<lambda>sgn.
         bind_err (py_div mt (- g)) (\<lambda>mt'.
           Inr (g + thrust * sgn, mt'))))
      else Inr (acceleration, mt))"

text \<open>One pass through the loop body after the landing test (lines 82 to 120).\<close>

definition loop_body :: "real \<Rightarrow> real \<Rightarrow> real \<Rightarrow> sim_state \<Rightarrow> fault + sim_state" where
  "loop_body dt velocity_change height_change s =
     (let cur = current_state s in
      bind_err (calculate_gravity (altitude cur)) (\<lambda>g.
      bind_err (py_div (- (velocity cur ^ 2)) (2 * (max_thrust s + g))) (\<lambda>required_distance.
        let target_velocity =
              - sqrt ((- velocity cur) ^ 2 + 2 * (- g) * altitude cur) * velocity_change;
            thrust = select_thrust (altitude cur) (velocity cur) required_distance
                       height_change target_velocity (max_thrust s)
        in bind_err (overshoot_guard (velocity cur) dt g thrust target_velocity (max_thrust s))
             (\<lambda>(acceleration, mt').
                let new_velocity = velocity cur + acceleration * dt;
                    new_height = altitude cur + new_velocity * dt;
                    new_time = time cur + dt;
                    new_state = \<lparr>altitude = new_height, velocity = new_velocity,
                                 time = new_time\<rparr>
                in Inr (s\<lparr>current_state := new_state,
                          trajectory := append_state (trajectory s) new_state,
                          max_thrust := mt'\<rparr>)))))"

text \<open>
  The \<^verbatim>\<open>while True\<close> loop.  \<open>None\<close> is a run that never leaves the loop; \<open>Some (Inl e)\<close>
  is a run in which a pass divides by zero; \<open>Some (Inr (s, r))\<close> is a run that left the loop in state
  \<open>s\<close> through the \<^verbatim>\<open>break\<close> named by \<open>r\<close>.  Only the landing \<^verbatim>\<open>break\<close> assigns
  \<^verbatim>\<open>solution_found\<close>.
\<close>

partial_function (option) landing_loop ::
  "real \<Rightarrow> real \<Rightarrow> real \<Rightarrow> sim_state \<Rightarrow> (fault + sim_state \<times> stop) option" where
  "landing_loop dt velocity_change height_change s =
     (if altitude (current_state s) \<le> 0
      then Some (Inr (s\<lparr>solution_found := True\<rparr>, Touchdown))
      else case loop_body dt velocity_change height_change s of
             Inl e \<Rightarrow> Some (Inl e)
           | Inr s' \<Rightarrow>
               if time (current_state s') > 1000 then Some (Inr (s', Safety_break))
               else landing_loop dt velocity_change height_change s')"

text \<open>
  \<^verbatim>\<open>simulate_landing\<close> with the global flag passed in and out.  \<open>simulate_run\<close> also
  reports how the loop was left; \<open>simulate_landing\<close> is what the Python returns (the
  trajectory) together with the flag's value afterwards.
\<close>

definition initial_sim_state :: "real \<Rightarrow> real \<Rightarrow> real \<Rightarrow> bool \<Rightarrow> sim_state" where
  "initial_sim_state initial_height initial_velocity mt flag =
     (let st = \<lparr>altitude = initial_height, velocity = initial_velocity, time = 0\<rparr>
      in \<lparr>current_state = st, trajectory = append_state \<lparr>states = []\<rparr> st,
          max_thrust = mt, solution_found = flag\<rparr>)"

definition simulate_run ::
  "real \<Rightarrow> real \<Rightarrow> real \<Rightarrow> real \<Rightarrow> real \<Rightarrow> real \<Rightarrow> real \<Rightarrow> real \<Rightarrow> bool \<Rightarrow>
   (fault + sim_state \<times> stop) option" where
  "simulate_run initial_height initial_velocity rocket_mass max_thrust_newtons tolerance dt
     velocity_change height_change flag =
     (case py_div max_thrust_newtons rocket_mass of
        Inl e \<Rightarrow> Some (Inl e)
      | Inr mt \<Rightarrow>
          landing_loop dt velocity_change height_change
            (initial_sim_state initial_height initial_velocity mt flag))"

definition simulate_landing ::
  "real \<Rightarrow> real \<Rightarrow> real \<Rightarrow> real \<Rightarrow> real \<Rightarrow> real \<Rightarrow> real \<Rightarrow> real \<Rightarrow> bool \<Rightarrow>
   (fault + Trajectory \<times> bool) option" where
  "simulate_landing initial_height initial_velocity rocket_mass max_thrust_newtons tolerance dt
     velocity_change height_change flag =
     map_option (map_sum id (\<lambda>(s, r). (trajectory s, solution_found s)))
       (simulate_run initial_height initial_velocity rocket_mass max_thrust_newtons tolerance dt
          velocity_change height_change flag)"

section \<open>The exhaustive search of \<^verbatim>\<open>bruteforce.py\<close>\<close>

text \<open>
  The scenario that the script passes to every simulation.  The script fixes these values
  (\<open>bruteforce_scenario\<close> below); the loops are modelled for any scenario and any two
  lists of coefficients.  The tolerance is the literal \<^verbatim>\<open>0.5\<close> at each call.
\<close>

record scenario =
  cfg_initial_height :: real
  cfg_initial_velocity :: real
  cfg_rocket_mass :: real
  cfg_max_thrust_newtons :: real
  cfg_dt :: real

definition simulate_scenario ::
  "scenario \<Rightarrow> real \<Rightarrow> real \<Rightarrow> bool \<Rightarrow> (fault + Trajectory \<times> bool) option" where
  "simulate_scenario sc velocity_change height_change flag =
     simulate_landing (cfg_initial_height sc) (cfg_initial_velocity sc) (cfg_rocket_mass sc)
       (cfg_max_thrust_newtons sc) 0.5 (cfg_dt sc) velocity_change height_change flag"

definition bind_run ::
  "(fault + 'a) option \<Rightarrow> ('a \<Rightarrow> (fault + 'b) option) \<Rightarrow> (fault + 'b) option" where
  "bind_run r f = (case r of None \<Rightarrow> None | Some (Inl e) \<Rightarrow> Some (Inl e) | Some (Inr x) \<Rightarrow> f x)"

text \<open>The variables of the script's main block; \<^verbatim>\<open>None\<close> is \<open>None\<close>.\<close>

record search_state =
  found :: bool
  attempt :: int
  trajectories :: "Trajectory list"
  min_cost :: real
  solution_trajectory :: "Trajectory option"
  solution_attempt :: int
  optimal_dv :: real
  optimal_dh :: real

definition initial_search_state :: search_state where
  "initial_search_state =
     \<lparr>found = False, attempt = 0, trajectories = [], min_cost = - 1,
      solution_trajectory = None, solution_attempt = - 1, optimal_dv = - 1, optimal_dh = - 1\<rparr>"

definition record_solution :: "search_state \<Rightarrow> real \<Rightarrow> Trajectory \<Rightarrow> real \<Rightarrow> real \<Rightarrow> search_state" where
  "record_solution st current_cost tr velocity_change height_change =
     st\<lparr>min_cost := current_cost, solution_trajectory := Some tr,
        solution_attempt := attempt st, optimal_dv := velocity_change,
        optimal_dh := height_change\<rparr>"

text \<open>The body of the inner \<^verbatim>\<open>for\<close> loop (lines 208 to 240).\<close>

definition search_body ::
  "scenario \<Rightarrow> real \<Rightarrow> real \<Rightarrow> search_state \<Rightarrow> (fault + search_state) option" where
  "search_body sc velocity_change height_change st =
     bind_run (simulate_scenario sc velocity_change height_change (found st)) (\<lambda>(tr, flag).
       let st1 = st\<lparr>found := flag, trajectories := trajectories st @ [tr]\<rparr> in
       case calculate_landing_cost tr of
         Inl e \<Rightarrow> Some (Inl e)
       | Inr current_cost \<Rightarrow>
           let st2 = (if min_cost st1 = - 1
                      then record_solution st1 current_cost tr velocity_change height_change
                      else if current_cost < min_cost st1
                      then record_solution st1 current_cost tr velocity_change height_change
                      else st1)
           in Some (Inr (st2\<lparr>attempt := attempt st2 + 1\<rparr>)))"

fun height_loop ::
  "scenario \<Rightarrow> real \<Rightarrow> real list \<Rightarrow> search_state \<Rightarrow> (fault + search_state) option" where
  "height_loop sc velocity_change [] st = Some (Inr st)"
| "height_loop sc velocity_change (height_change # hs) st =
     bind_run (search_body sc velocity_change height_change st)
       (height_loop sc velocity_change hs)"

fun velocity_loop ::
  "scenario \<Rightarrow> real list \<Rightarrow> real list \<Rightarrow> search_state \<Rightarrow> (fault + search_state) option" where
  "velocity_loop sc [] hs st = Some (Inr st)"
| "velocity_loop sc (velocity_change # vs) hs st =
     bind_run (height_loop sc velocity_change hs st) (velocity_loop sc vs hs)"

definition grid_search :: "scenario \<Rightarrow> real list \<Rightarrow> real list \<Rightarrow> (fault + search_state) option" where
  "grid_search sc vs hs = velocity_loop sc vs hs initial_search_state"

text \<open>
  The script itself: \<^verbatim>\<open>np.arange(0.0, 1.0, 0.01)\<close> and \<^verbatim>\<open>np.arange(1.0, 2.0, 0.01)\<close> have a
  hundred entries each, \<^verbatim>\<open>start + i * step\<close>; after the loops
  \<^verbatim>\<open>solution_trajectory.states[-1]\<close> is read.
\<close>

definition bruteforce_scenario :: scenario where
  "bruteforce_scenario =
     \<lparr>cfg_initial_height = 100, cfg_initial_velocity = - 50, cfg_rocket_mass = 1000,
      cfg_max_thrust_newtons = 20000, cfg_dt = 0.05\<rparr>"

definition arange :: "real \<Rightarrow> real \<Rightarrow> nat \<Rightarrow> real list" where
  "arange start step n = map (\<lambda>i. start + real i * step) [0..<n]"

definition bruteforce_main :: "(fault + search_state \<times> RocketState) option" where
  "bruteforce_main =
     bind_run (grid_search bruteforce_scenario (arange 0 0.01 100) (arange 1 0.01 100)) (\<lambda>st.
       case solution_trajectory st of
         None \<Rightarrow> Some (Inl NoneAccess)
       | Some tr \<Rightarrow> Some (map_sum id (\<lambda>fs. (st, fs)) (final_state tr)))"

section \<open>The genetic algorithm of \<^verbatim>\<open>metaheuristic.py\<close>\<close>

text \<open>
  Randomness is an input: \<open>rnd k\<close> is the \<open>k\<close>-th number drawn, uniform in \<open>[0, 1)\<close>, in
  program order, whichever generator the Python asks.  \<^verbatim>\<open>np.random.uniform(low, high)\<close>
  scales a draw; \<^verbatim>\<open>random.choice\<close> raises \<^verbatim>\<open>IndexError\<close> on an empty sequence and otherwise
  indexes with a draw scaled to the length (reduced modulo the length, which changes
  nothing for a draw in \<open>[0, 1)\<close>).
\<close>

type_synonym individual = "real \<times> real"

type_synonym evaluation = "individual \<times> real \<times> Trajectory"

definition uniform :: "real \<Rightarrow> real \<Rightarrow> real \<Rightarrow> real" where
  "uniform low high u = low + (high - low) * u"

definition choice :: "real \<Rightarrow> 'a list \<Rightarrow> fault + 'a" where
  "choice u xs =
     (if xs = [] then Inl IndexOutOfRange
      else Inr (xs ! (nat \<lfloor>u * real (length xs)\<rfloor> mod length xs)))"

text \<open>\<^verbatim>\<open>best_cost\<close> starts at \<^verbatim>\<open>float('inf')\<close>, above every cost.\<close>

datatype cost_bound = Infinity | Finite real

fun below :: "real \<Rightarrow> cost_bound \<Rightarrow> bool" where
  "below c Infinity = True"
| "below c (Finite b) = (c < b)"

record ga_state =
  population :: "individual list"
  best_cost :: cost_bound
  best_solution :: "Trajectory option"
  drawn :: nat
  ga_found :: bool

definition random_population :: "(nat \<Rightarrow> real) \<Rightarrow> int \<Rightarrow> individual list" where
  "random_population rnd initial_population =
     map (\<lambda>i. (uniform 0 1 (rnd (2 * i)), uniform 1 2 (rnd (2 * i + 1))))
       [0..<nat initial_population]"

text \<open>The inner \<^verbatim>\<open>for\<close> loop over the population (lines 38 to 45).\<close>

fun evaluate ::
  "scenario \<Rightarrow> individual list \<Rightarrow> evaluation list \<times> bool \<Rightarrow>
   (fault + evaluation list \<times> bool) option" where
  "evaluate sc [] acc = Some (Inr acc)"
| "evaluate sc (individual # rest) (evaluations, flag) =
     bind_run (simulate_scenario sc (fst individual) (snd individual) flag) (\<lambda>(tr, flag').
       case calculate_landing_cost tr of
         Inl e \<Rightarrow> Some (Inl e)
       | Inr cost \<Rightarrow> evaluate sc rest (evaluations @ [(individual, cost, tr)], flag'))"

text \<open>
  The \<^verbatim>\<open>while\<close> loop that refills the population (lines 63 to 72); the second component
  counts the draws made so far.
\<close>

function reproduce ::
  "(nat \<Rightarrow> real) \<Rightarrow> int \<Rightarrow> individual list \<Rightarrow> individual list \<times> nat \<Rightarrow>
   fault + individual list \<times> nat" where
  "reproduce rnd initial_population pop (new_population, k) =
     (if int (length new_population) < initial_population then
        (case choice (rnd k) pop of
           Inl e \<Rightarrow> Inl e
         | Inr father \<Rightarrow>
             (case choice (rnd (k + 1)) pop of
                Inl e \<Rightarrow> Inl e
              | Inr mother \<Rightarrow>
                  (let child = ((fst father + fst mother) / 2, (snd father + snd mother) / 2)
                   in if rnd (k + 2) < 0.1
                      then reproduce rnd initial_population pop
                             (new_population @
                                [(fst child + uniform (- 0.1) 0.1 (rnd (k + 3)),
                                  snd child + uniform (- 0.1) 0.1 (rnd (k + 4)))], k + 5)
                      else reproduce rnd initial_population pop
                             (new_population @ [child], k + 3))))
      else Inr (new_population, k))"
  by pat_completeness auto
termination
  by (relation "measure (\<lambda>(rnd, n, pop, new_population, k). nat (n - int (length new_population)))")
    auto

text \<open>One generation (lines 35 to 75).  Python's \<^verbatim>\<open>list.sort\<close> is stable, as \<open>sort_key\<close> is.\<close>

definition generation ::
  "(nat \<Rightarrow> real) \<Rightarrow> int \<Rightarrow> scenario \<Rightarrow> ga_state \<Rightarrow> (fault + ga_state) option" where
  "generation rnd initial_population sc st =
     bind_run (evaluate sc (population st) ([], ga_found st)) (\<lambda>(evaluations, flag).
       case sort_key (\<lambda>x. fst (snd x)) evaluations of
         [] \<Rightarrow> Some (Inl IndexOutOfRange)
       | best_individual_gen # others \<Rightarrow>
           (let sorted = best_individual_gen # others;
                st1 = (if below (fst (snd best_individual_gen)) (best_cost st)
                       then st\<lparr>best_cost := Finite (fst (snd best_individual_gen)),
                              best_solution := Some (snd (snd best_individual_gen))\<rparr>
                       else st);
                survivors = map fst (take (length (population st) div 2) sorted)
            in case reproduce rnd initial_population survivors (survivors, drawn st) of
                 Inl e \<Rightarrow> Some (Inl e)
               | Inr (new_population, k) \<Rightarrow>
                   Some (Inr (st1\<lparr>population := new_population, drawn := k,
                                  ga_found := flag\<rparr>))))"

fun generations_loop ::
  "(nat \<Rightarrow> real) \<Rightarrow> int \<Rightarrow> scenario \<Rightarrow> nat \<Rightarrow> ga_state \<Rightarrow> (fault + ga_state) option" where
  "generations_loop rnd initial_population sc 0 st = Some (Inr st)"
| "generations_loop rnd initial_population sc (Suc n) st =
     bind_run (generation rnd initial_population sc st)
       (generations_loop rnd initial_population sc n)"

definition initial_ga_state :: "(nat \<Rightarrow> real) \<Rightarrow> int \<Rightarrow> bool \<Rightarrow> ga_state" where
  "initial_ga_state rnd initial_population flag =
     \<lparr>population = random_population rnd initial_population, best_cost = Infinity,
      best_solution = None, drawn = 2 * nat initial_population, ga_found = flag\<rparr>"

definition genetic_algorithm ::
  "int \<Rightarrow> int \<Rightarrow> real \<Rightarrow> real \<Rightarrow> real \<Rightarrow> real \<Rightarrow> real \<Rightarrow> (nat \<Rightarrow> real) \<Rightarrow> bool \<Rightarrow>
   (fault + Trajectory option \<times> cost_bound) option" where
  "genetic_algorithm initial_population generations initial_height initial_velocity rocket_mass
     max_thrust_newtons dt rnd flag =
     bind_run
       (generations_loop rnd initial_population
          \<lparr>cfg_initial_height = initial_height, cfg_initial_velocity = initial_velocity,
           cfg_rocket_mass = rocket_mass, cfg_max_thrust_newtons = max_thrust_newtons,
           cfg_dt = dt\<rparr>
          (nat generations) (initial_ga_state rnd initial_population flag))
       (\<lambda>st. Some (Inr (best_solution st, best_cost st)))"

section \<open>The live-vehicle step of \<^verbatim>\<open>ksp_simul.py\<close>\<close>

text \<open>
  \<^verbatim>\<open>landing\<close> decides one control cycle on the running vehicle.  Its effects are the
  commands sent to the vehicle and the waits, in order; its result is \<^verbatim>\<open>True\<close>, \<^verbatim>\<open>False\<close>
  or, after the bare \<^verbatim>\<open>return\<close>, \<^verbatim>\<open>None\<close>.
\<close>

datatype command = Throttle real | Sleep real

record celestial_body =
  mass :: real
  equatorial_radius :: real

definition calculate_gravity_ksp :: "real \<Rightarrow> real \<Rightarrow> real \<Rightarrow> fault + real" where
  "calculate_gravity_ksp h m radius = py_div (- G_const * m) ((radius + h) ^ 2)"

definition landing ::
  "real \<Rightarrow> real \<Rightarrow> real \<Rightarrow> real \<Rightarrow> real \<Rightarrow> real \<Rightarrow> real \<Rightarrow> celestial_body \<Rightarrow> real \<Rightarrow>
   fault + bool option \<times> command list" where
  "landing initial_height initial_velocity rocket_mass max_thrust_newtons velocity_change
     height_change final_height celestialBody dt =
     (if max_thrust_newtons = 0 then Inr (None, [])
      else
        bind_err (py_div max_thrust_newtons rocket_mass) (\<lambda>mt.
        if initial_height \<le> final_height then Inr (Some False, [])
        else
          bind_err (calculate_gravity_ksp initial_height (mass celestialBody)
                      (equatorial_radius celestialBody)) (\<lambda>g.
          bind_err (py_div (initial_velocity ^ 2) (2 * (mt + g))) (\<lambda>required_distance.
            let terminal_velocity =
                  - sqrt ((- initial_velocity) ^ 2 + 2 * (- g) * initial_height) * velocity_change;
                thrust = (if initial_height \<le> required_distance * height_change then mt
                          else if - initial_velocity < terminal_velocity then mt * 0.8
                          else 0)
            in bind_err (overshoot_guard initial_velocity dt g thrust terminal_velocity mt)
                 (\<lambda>(acceleration, mt').
                    bind_err (py_div thrust mt') (\<lambda>impulse.
                      let impulse_time = \<bar>terminal_velocity\<bar> - \<bar>initial_velocity\<bar> in
                      if thrust > 0 then
                        (let impulse_time1 = impulse_time / \<bar>thrust\<bar>;
                             impulse_time2 = (if impulse_time1 < 0 then 0 else impulse_time1)
                         in Inr (Some True,
                                 [Throttle impulse, Sleep impulse_time2, Throttle 0]))
                      else Inr (Some True, [])))))))"

section \<open>Predicates used in the proofs\<close>

text \<open>
  The loop invariant of \<^verbatim>\<open>simulate_landing\<close>: the trajectory is not empty, ends with the
  current state, starts with the given state, and consecutive times differ by \<open>dt\<close>.
\<close>

definition stepwise :: "real \<Rightarrow> RocketState \<Rightarrow> sim_state \<Rightarrow> bool" where
  "stepwise dt st0 s \<longleftrightarrow>
     states (trajectory s) \<noteq> [] \<and> last (states (trajectory s)) = current_state s \<and>
     states (trajectory s) ! 0 = st0 \<and>
     (\<forall>i. Suc i < length (states (trajectory s)) \<longrightarrow>
          time (states (trajectory s) ! Suc i) = time (states (trajectory s) ! i) + dt)"

text \<open>
  A run without thrust: \<^verbatim>\<open>max_thrust\<close> is zero and each state follows from the one before
  by the acceleration of gravity alone.
\<close>

definition free_fall :: "real \<Rightarrow> sim_state \<Rightarrow> bool" where
  "free_fall dt s \<longleftrightarrow>
     max_thrust s = 0 \<and> states (trajectory s) \<noteq> [] \<and>
     last (states (trajectory s)) = current_state s \<and>
     (\<forall>i. Suc i < length (states (trajectory s)) \<longrightarrow>
        (\<exists>g. calculate_gravity (altitude (states (trajectory s) ! i)) = Inr g \<and>
             velocity (states (trajectory s) ! Suc i) =
               velocity (states (trajectory s) ! i) + g * dt \<and>
             altitude (states (trajectory s) ! Suc i) =
               altitude (states (trajectory s) ! i) +
               velocity (states (trajectory s) ! Suc i) * dt))"

text \<open>
  The cost of a non-empty trajectory as a number, and the invariant of the exhaustive
  search after the cells \<open>cells\<close> have been evaluated in this order: one trajectory for each
  cell, none of negative cost, and the recorded solution is the first cell of least cost.
\<close>

definition cost_of :: "Trajectory \<Rightarrow> real" where
  "cost_of tr = time (last (states tr)) + 2 * \<bar>velocity (last (states tr))\<bar>"

definition search_inv :: "scenario \<Rightarrow> (real \<times> real) list \<Rightarrow> search_state \<Rightarrow> bool" where
  "search_inv sc cells st \<longleftrightarrow>
     attempt st = int (length cells) \<and> length (trajectories st) = length cells \<and>
     (\<forall>j < length cells.
        (\<exists>f f'. simulate_scenario sc (fst (cells ! j)) (snd (cells ! j)) f =
                  Some (Inr (trajectories st ! j, f'))) \<and>
        states (trajectories st ! j) \<noteq> [] \<and> 0 \<le> cost_of (trajectories st ! j)) \<and>
     (cells = [] \<longrightarrow> min_cost st = - 1 \<and> solution_trajectory st = None) \<and>
     (cells \<noteq> [] \<longrightarrow>
        (\<exists>k < length cells.
           solution_attempt st = int k \<and> solution_trajectory st = Some (trajectories st ! k) \<and>
           optimal_dv st = fst (cells ! k) \<and> optimal_dh st = snd (cells ! k) \<and>
           min_cost st = cost_of (trajectories st ! k) \<and>
           (\<forall>j < length cells. min_cost st \<le> cost_of (trajectories st ! j)) \<and>
           (\<forall>j < k. min_cost st < cost_of (trajectories st ! j))))"

text \<open>
  The scenario of the scripts with a time step of 2000 s: every run has one step and is
  ended by the safety test.  It serves to evaluate the searches on concrete inputs.
\<close>

definition long_step_scenario :: scenario where
  "long_step_scenario =
     \<lparr>cfg_initial_height = 100, cfg_initial_velocity = - 50, cfg_rocket_mass = 1000,
      cfg_max_thrust_newtons = 20000, cfg_dt = 2000\<rparr>"

text \<open>
  The order of the tracked best cost, with \<^verbatim>\<open>float('inf')\<close> on top, and a sequence of draws
  used to evaluate the genetic algorithm on a concrete input: the two first individuals
  get \<open>velocity_change = 0.9\<close> and \<open>height_change = 1\<close>, the first child is mutated to
  \<open>(0.98, 1)\<close>.
\<close>

fun bound_le :: "cost_bound \<Rightarrow> cost_bound \<Rightarrow> bool" where
  "bound_le b Infinity = True"
| "bound_le Infinity (Finite c) = False"
| "bound_le (Finite a) (Finite c) = (a \<le> c)"

definition sample_draws :: "nat \<Rightarrow> real" where
  "sample_draws k = (if k = 0 \<or> k = 2 \<or> k = 7 then 9 / 10 else if k = 8 then 1 / 2 else 0)"

section \<open>The landing cost\<close>

lemma calculate_landing_cost_nonempty:
  "states tr \<noteq> [] \<Longrightarrow>
   calculate_landing_cost tr = Inr (time (last (states tr)) + 2 * \<bar>velocity (last (states tr))\<bar>)"
  by (simp add: calculate_landing_cost_def final_state_def bind_err_def)

lemma calculate_landing_cost_empty:
  "states tr = [] \<Longrightarrow> calculate_landing_cost tr = Inl IndexOutOfRange"
  by (simp add: calculate_landing_cost_def final_state_def bind_err_def)

section \<open>Properties of the simulation loop\<close>

text \<open>
  What one pass of the loop body changes, and an induction rule for runs of the loop that
  return: one case for each way out of an iteration.
\<close>


lemma loop_body_result:
  assumes "loop_body dt vc hc s = Inr s'"
  shows "time (current_state s') = time (current_state s) + dt"
    and "trajectory s' = append_state (trajectory s) (current_state s')"
    and "solution_found s' = solution_found s"
  using assms
  by (auto simp: loop_body_def bind_err_def Let_def split: sum.splits prod.splits)

lemma landing_loop_induct [consumes 1, case_names land fault safety step]:
  assumes run: "landing_loop dt vc hc s = Some y"
    and land: "\<And>s. altitude (current_state s) \<le> 0 \<Longrightarrow>
                 P s (Inr (s\<lparr>solution_found := True\<rparr>, Touchdown))"
    and fault: "\<And>s e. \<not> altitude (current_state s) \<le> 0 \<Longrightarrow>
                 loop_body dt vc hc s = Inl e \<Longrightarrow> P s (Inl e)"
    and safety: "\<And>s b. \<not> altitude (current_state s) \<le> 0 \<Longrightarrow>
                 loop_body dt vc hc s = Inr b \<Longrightarrow> 1000 < time (current_state b) \<Longrightarrow>
                 P s (Inr (b, Safety_break))"
    and step: "\<And>s b y. \<not> altitude (current_state s) \<le> 0 \<Longrightarrow>
                 loop_body dt vc hc s = Inr b \<Longrightarrow> \<not> 1000 < time (current_state b) \<Longrightarrow>
                 P b y \<Longrightarrow> P s y"
  shows "P s y"
proof -
  have "dt = dt \<and> vc = vc \<and> hc = hc \<longrightarrow> P s y"
  proof (rule landing_loop.raw_induct
      [where P = "\<lambda>d v h s y. d = dt \<and> v = vc \<and> h = hc \<longrightarrow> P s y", OF _ run])
    fix f d v h s y
    assume ih: "\<And>d v h s y. f d v h s = Some y \<Longrightarrow> d = dt \<and> v = vc \<and> h = hc \<longrightarrow> P s y"
      and eq: "(if altitude (current_state s) \<le> 0
                then Some (Inr (s\<lparr>solution_found := True\<rparr>, Touchdown))
                else case loop_body d v h s of
                       Inl e \<Rightarrow> Some (Inl e)
                     | Inr s' \<Rightarrow>
                         if 1000 < time (current_state s') then Some (Inr (s', Safety_break))
                         else f d v h s') = Some y"
    show "d = dt \<and> v = vc \<and> h = hc \<longrightarrow> P s y"
    proof
      assume par: "d = dt \<and> v = vc \<and> h = hc"
      show "P s y"
      proof (cases "altitude (current_state s) \<le> 0")
        case True
        with eq have "y = Inr (s\<lparr>solution_found := True\<rparr>, Touchdown)" by simp
        then show ?thesis using land[OF True] by simp
      next
        case False
        show ?thesis
        proof (cases "loop_body dt vc hc s")
          case (Inl e)
          with eq False par have "y = Inl e" by simp
          then show ?thesis using fault[OF False Inl] by simp
        next
          case (Inr b)
          show ?thesis
          proof (cases "1000 < time (current_state b)")
            case True
            with eq False par Inr have "y = Inr (b, Safety_break)" by simp
            then show ?thesis using safety[OF False Inr True] by simp
          next
            case nb: False
            with eq False par Inr have "f dt vc hc b = Some y" by simp
            from ih[OF this] have "P b y" by simp
            then show ?thesis using step[OF False Inr nb] by simp
          qed
        qed
      qed
    qed
  qed
  then show ?thesis by simp
qed

lemma landing_loop_stop:
  assumes "landing_loop dt vc hc s = Some (Inr (s', r))"
  shows "solution_found s' = (solution_found s \<or> r = Touchdown)"
    and "r = Touchdown \<Longrightarrow> altitude (current_state s') \<le> 0"
    and "r = Safety_break \<Longrightarrow> 1000 < time (current_state s')"
proof -
  have "\<forall>s' r. y = Inr (s', r) \<longrightarrow>
           solution_found s' = (solution_found s \<or> r = Touchdown) \<and>
           (r = Touchdown \<longrightarrow> altitude (current_state s') \<le> 0) \<and>
           (r = Safety_break \<longrightarrow> 1000 < time (current_state s'))"
    if "landing_loop dt vc hc s = Some y" for y
    using that
  proof (induct rule: landing_loop_induct)
    case (step s b y)
    then show ?case using loop_body_result(3)[of dt vc hc s b] by simp
  qed (simp_all add: loop_body_result(3))
  from this[OF assms] show "solution_found s' = (solution_found s \<or> r = Touchdown)"
    and "r = Touchdown \<Longrightarrow> altitude (current_state s') \<le> 0"
    and "r = Safety_break \<Longrightarrow> 1000 < time (current_state s')" by simp_all
qed

lemma landing_loop_invariant:
  assumes run: "landing_loop dt vc hc s = Some (Inr (s', r))"
    and init: "I s"
    and step: "\<And>a b. I a \<Longrightarrow> loop_body dt vc hc a = Inr b \<Longrightarrow> I b"
    and land: "\<And>a. I a \<Longrightarrow> I (a\<lparr>solution_found := True\<rparr>)"
  shows "I s'"
proof -
  have "I s \<longrightarrow> (\<forall>s' r. y = Inr (s', r) \<longrightarrow> I s')"
    if "landing_loop dt vc hc s = Some y" for y
    using that
  proof (induct rule: landing_loop_induct)
    case (land s)
    then show ?case using assms(4) by simp
  next
    case (step s b y)
    then show ?case using assms(3) by blast
  next
    case (safety s b)
    then show ?case using assms(3) by blast
  qed simp
  from this[OF run] init show ?thesis by simp
qed

section \<open>Claims about the cost and the tolerance\<close>

text \<open>
  C4.  For non-empty trajectories the cost is the final time plus twice the absolute
  final velocity.  It depends on the final state only: two trajectories with the same
  final state have the same cost.  It is not negative when the final time is not
  negative, and it does not decrease when the absolute final velocity grows at a fixed
  final time, or when the final time grows at a fixed absolute final velocity.
\<close>

theorem landing_cost_final_state:
  assumes "states tr \<noteq> []" and "states tr' \<noteq> []"
  shows "\<exists>c c'. calculate_landing_cost tr = Inr c \<and> calculate_landing_cost tr' = Inr c' \<and>
           c = time (last (states tr)) + 2 * \<bar>velocity (last (states tr))\<bar> \<and>
           (last (states tr') = last (states tr) \<longrightarrow> c' = c) \<and>
           (0 \<le> time (last (states tr)) \<longrightarrow> 0 \<le> c) \<and>
           (time (last (states tr')) = time (last (states tr)) \<and>
            \<bar>velocity (last (states tr))\<bar> \<le> \<bar>velocity (last (states tr'))\<bar> \<longrightarrow> c \<le> c') \<and>
           (\<bar>velocity (last (states tr'))\<bar> = \<bar>velocity (last (states tr))\<bar> \<and>
            time (last (states tr)) \<le> time (last (states tr')) \<longrightarrow> c \<le> c')"
  using assms by (simp add: calculate_landing_cost_nonempty)

theorem landing_cost_final_state_witness:
  "(\<exists>c c'. calculate_landing_cost
            \<lparr>states = [\<lparr>altitude = 100, velocity = - 50, time = 0\<rparr>,
                       \<lparr>altitude = 0, velocity = - 3, time = 12\<rparr>]\<rparr> = Inr c \<and>
          calculate_landing_cost
            \<lparr>states = [\<lparr>altitude = 0, velocity = - 3, time = 12\<rparr>]\<rparr> = Inr c' \<and>
          c = 18 \<and> c' = 18) \<and>
   (\<exists>c c'. calculate_landing_cost
            \<lparr>states = [\<lparr>altitude = 100, velocity = - 50, time = 0\<rparr>,
                       \<lparr>altitude = 0, velocity = - 3, time = 12\<rparr>]\<rparr> = Inr c \<and>
          calculate_landing_cost
            \<lparr>states = [\<lparr>altitude = 7, velocity = 4, time = 12\<rparr>]\<rparr> = Inr c' \<and>
          0 \<le> c \<and> c \<le> c')"
  using landing_cost_final_state
          [of "\<lparr>states = [\<lparr>altitude = 100, velocity = - 50, time = 0\<rparr>,
                          \<lparr>altitude = 0, velocity = - 3, time = 12\<rparr>]\<rparr>"
              "\<lparr>states = [\<lparr>altitude = 0, velocity = - 3, time = 12\<rparr>]\<rparr>"]
        landing_cost_final_state
          [of "\<lparr>states = [\<lparr>altitude = 100, velocity = - 50, time = 0\<rparr>,
                          \<lparr>altitude = 0, velocity = - 3, time = 12\<rparr>]\<rparr>"
              "\<lparr>states = [\<lparr>altitude = 7, velocity = 4, time = 12\<rparr>]\<rparr>"]
  by simp

text \<open>
  C9.  The tolerance argument has no effect: two calls of \<^verbatim>\<open>simulate_landing\<close> that differ
  in the tolerance only have the same outcome (the same trajectory, the same value of the
  global flag, the same fault, or both never return).
\<close>

theorem tolerance_noninterference:
  "simulate_landing initial_height initial_velocity rocket_mass max_thrust_newtons t1 dt
     velocity_change height_change flag =
   simulate_landing initial_height initial_velocity rocket_mass max_thrust_newtons t2 dt
     velocity_change height_change flag"
  by (simp add: simulate_landing_def simulate_run_def)

section \<open>Termination and the trajectory invariant\<close>

text \<open>
  With a positive time step the loop is left after at most \<open>\<lfloor>1000 / dt\<rfloor> + 1\<close> passes:
  the time grows by \<open>dt\<close> in each pass and the safety test stops the run once it exceeds
  1000.
\<close>


lemma landing_loop_terminates:
  assumes "0 < dt"
  shows "1000 < time (current_state s) + real (Suc n) * dt \<Longrightarrow>
         \<exists>y. landing_loop dt vc hc s = Some y \<and>
             (\<forall>s' r. y = Inr (s', r) \<longrightarrow>
                length (states (trajectory s')) \<le> length (states (trajectory s)) + Suc n)"
proof (induction n arbitrary: s)
  case 0
  show ?case
  proof (cases "altitude (current_state s) \<le> 0")
    case True
    then show ?thesis by (subst landing_loop.simps) simp
  next
    case False
    show ?thesis
    proof (cases "loop_body dt vc hc s")
      case (Inl e)
      with False show ?thesis by (subst landing_loop.simps) simp
    next
      case (Inr b)
      from loop_body_result(1)[OF Inr] 0 have "1000 < time (current_state b)" by simp
      with False Inr loop_body_result(2)[OF Inr] show ?thesis
        by (subst landing_loop.simps) (simp add: append_state_def)
    qed
  qed
next
  case (Suc n)
  show ?case
  proof (cases "altitude (current_state s) \<le> 0")
    case True
    then show ?thesis by (subst landing_loop.simps) simp
  next
    case False
    show ?thesis
    proof (cases "loop_body dt vc hc s")
      case (Inl e)
      with False show ?thesis by (subst landing_loop.simps) simp
    next
      case (Inr b)
      have len: "length (states (trajectory b)) = Suc (length (states (trajectory s)))"
        using loop_body_result(2)[OF Inr] by (simp add: append_state_def)
      show ?thesis
      proof (cases "1000 < time (current_state b)")
        case True
        with False Inr len show ?thesis by (subst landing_loop.simps) simp
      next
        case nb: False
        have "1000 < time (current_state b) + real (Suc n) * dt"
          using loop_body_result(1)[OF Inr] Suc.prems by (simp add: algebra_simps)
        from Suc.IH[OF this] obtain y where y: "landing_loop dt vc hc b = Some y"
          and bound: "\<forall>s' r. y = Inr (s', r) \<longrightarrow>
                length (states (trajectory s')) \<le> length (states (trajectory b)) + Suc n"
          by blast
        have "landing_loop dt vc hc s = Some y"
          using False Inr nb y by (subst landing_loop.simps) simp
        with bound len show ?thesis by auto
      qed
    qed
  qed
qed

lemma step_count_bound: "0 < dt \<Longrightarrow> 1000 < real (Suc (nat \<lfloor>1000 / dt\<rfloor>)) * dt"
proof -
  assume dt: "0 < dt"
  have a: "1000 / dt < real_of_int \<lfloor>1000 / dt\<rfloor> + 1" by linarith
  have "0 \<le> \<lfloor>1000 / dt\<rfloor>" using dt by simp
  then have "real (nat \<lfloor>1000 / dt\<rfloor>) = real_of_int \<lfloor>1000 / dt\<rfloor>" by simp
  with a have "1000 / dt < real (Suc (nat \<lfloor>1000 / dt\<rfloor>))"
    unfolding of_nat_Suc by linarith
  then show ?thesis using dt by (simp add: pos_divide_less_eq)
qed

lemma stepwise_body:
  assumes "stepwise dt st0 a" and "loop_body dt vc hc a = Inr b"
  shows "stepwise dt st0 b"
proof -
  let ?xs = "states (trajectory a)"
  have tb: "states (trajectory b) = ?xs @ [current_state b]"
    using loop_body_result(2)[OF assms(2)] by (simp add: append_state_def)
  have tm: "time (current_state b) = time (last ?xs) + dt"
    using loop_body_result(1)[OF assms(2)] assms(1) by (simp add: stepwise_def)
  have ne: "?xs \<noteq> []" using assms(1) by (simp add: stepwise_def)
  have "time ((?xs @ [current_state b]) ! Suc i) = time ((?xs @ [current_state b]) ! i) + dt"
    if "Suc i < length (?xs @ [current_state b])" for i
  proof (cases "Suc i < length ?xs")
    case True
    then show ?thesis using assms(1) by (simp add: stepwise_def nth_append)
  next
    case False
    with that have i: "Suc i = length ?xs" by simp
    then have "i = length ?xs - 1" by simp
    then have "?xs ! i = last ?xs" using ne by (simp add: last_conv_nth)
    with i tm show ?thesis by (simp add: nth_append)
  qed
  with tb ne assms(1) show ?thesis by (simp add: stepwise_def nth_append)
qed

lemma stepwise_initial:
  "stepwise dt \<lparr>altitude = h, velocity = v, time = 0\<rparr> (initial_sim_state h v mt flag)"
  by (simp add: stepwise_def initial_sim_state_def append_state_def Let_def)

lemma stepwise_run:
  assumes "simulate_run h v m T tol dt vc hc flag = Some (Inr (s, r))"
  shows "stepwise dt \<lparr>altitude = h, velocity = v, time = 0\<rparr> s"
proof -
  from assms obtain mt where
    run: "landing_loop dt vc hc (initial_sim_state h v mt flag) = Some (Inr (s, r))"
    by (auto simp: simulate_run_def split: sum.splits)
  show ?thesis
  proof (rule landing_loop_invariant[OF run,
        where I = "stepwise dt \<lparr>altitude = h, velocity = v, time = 0\<rparr>"])
    show "stepwise dt \<lparr>altitude = h, velocity = v, time = 0\<rparr> (initial_sim_state h v mt flag)"
      by (rule stepwise_initial)
  next
    fix a b
    assume "stepwise dt \<lparr>altitude = h, velocity = v, time = 0\<rparr> a"
      and "loop_body dt vc hc a = Inr b"
    then show "stepwise dt \<lparr>altitude = h, velocity = v, time = 0\<rparr> b"
      by (rule stepwise_body)
  next
    fix a
    assume "stepwise dt \<lparr>altitude = h, velocity = v, time = 0\<rparr> a"
    then show "stepwise dt \<lparr>altitude = h, velocity = v, time = 0\<rparr> (a\<lparr>solution_found := True\<rparr>)"
      by (simp add: stepwise_def)
  qed
qed

lemma simulate_landing_Inr:
  "simulate_landing h v m T tol dt vc hc flag = Some (Inr (tr, flag')) \<longleftrightarrow>
   (\<exists>s r. simulate_run h v m T tol dt vc hc flag = Some (Inr (s, r)) \<and>
          tr = trajectory s \<and> flag' = solution_found s)"
proof (cases "simulate_run h v m T tol dt vc hc flag")
  case None
  then show ?thesis by (simp add: simulate_landing_def)
next
  case (Some y)
  then show ?thesis by (cases y) (auto simp: simulate_landing_def)
qed

section \<open>Concrete runs\<close>

text \<open>
  Three runs evaluated step by step.  The first two are the scenario of the scripts
  (100 m, 50 m/s downwards, 1000 kg, 20000 N) with a time step so long that the safety
  test ends the run after one or two passes; the third has no thrust and a time step of
  10 s, and touches down after one pass.
\<close>

lemmas eval_defs = loop_body_def bind_err_def calculate_gravity_def py_div_def G_const_def
  M_moon_def R_moon_def select_thrust_def overshoot_guard_def append_state_def Let_def
  initial_sim_state_def simulate_run_def power2_eq_square

lemma run_2000:
  "\<exists>s. simulate_run 100 (- 50) 1000 20000 (1/2) 2000 0 1 flag = Some (Inr (s, Safety_break)) \<and>
       length (states (trajectory s)) = 2 \<and> solution_found s = flag \<and>
       0 < altitude (current_state s)"
  apply (simp add: simulate_run_def py_div_def initial_sim_state_def append_state_def)
  apply (subst landing_loop.simps)
  apply (simp add: eval_defs)
  done

lemma run_600:
  "\<exists>s. simulate_run 100 (- 50) 1000 20000 (1/2) 600 0 1 flag = Some (Inr (s, Safety_break)) \<and>
       length (states (trajectory s)) = 3 \<and> solution_found s = flag"
  apply (simp add: simulate_run_def py_div_def initial_sim_state_def append_state_def)
  apply (subst landing_loop.simps)
  apply (simp add: eval_defs)
  apply (subst landing_loop.simps)
  apply (simp add: eval_defs)
  done

lemma run_free_fall:
  "\<exists>s. simulate_run 100 (- 50) 1000 0 (1/2) 10 0 1 flag = Some (Inr (s, Touchdown)) \<and>
       length (states (trajectory s)) = 2 \<and> solution_found s"
  apply (simp add: simulate_run_def py_div_def initial_sim_state_def append_state_def)
  apply (subst landing_loop.simps)
  apply (simp add: eval_defs)
  apply (subst landing_loop.simps)
  apply (simp add: eval_defs)
  done

section \<open>Claims about a single simulation\<close>

text \<open>
  C7.  Every trajectory that \<^verbatim>\<open>simulate_landing\<close> returns is not empty, starts with the
  initial state at time 0, and the times of consecutive states differ by exactly \<open>dt\<close>;
  so they increase strictly when \<open>dt\<close> is positive.
\<close>

theorem trajectory_times:
  assumes "simulate_landing h v m T tol dt vc hc flag = Some (Inr (tr, flag'))"
  shows "states tr \<noteq> [] \<and>
         states tr ! 0 = \<lparr>altitude = h, velocity = v, time = 0\<rparr> \<and>
         time (states tr ! 0) = 0 \<and>
         (\<forall>i. Suc i < length (states tr) \<longrightarrow>
              time (states tr ! Suc i) = time (states tr ! i) + dt) \<and>
         (0 < dt \<longrightarrow> (\<forall>i. Suc i < length (states tr) \<longrightarrow>
              time (states tr ! i) < time (states tr ! Suc i)))"
proof -
  from assms obtain s r where run: "simulate_run h v m T tol dt vc hc flag = Some (Inr (s, r))"
    and tr: "tr = trajectory s"
    unfolding simulate_landing_Inr by blast
  from stepwise_run[OF run] tr show ?thesis by (simp add: stepwise_def)
qed

theorem trajectory_times_witness:
  "\<exists>tr. simulate_landing 100 (- 50) 1000 20000 (1/2) 600 0 1 False = Some (Inr (tr, False)) \<and>
        length (states tr) = 3 \<and> time (states tr ! 0) = 0 \<and> time (states tr ! 1) = 600 \<and>
        time (states tr ! 2) = 1200"
proof -
  obtain s where run: "simulate_run 100 (- 50) 1000 20000 (1/2) 600 0 1 False =
      Some (Inr (s, Safety_break))"
    and len: "length (states (trajectory s)) = 3" and fl: "solution_found s = False"
    using run_600[of False] by blast
  have sl: "simulate_landing 100 (- 50) 1000 20000 (1/2) 600 0 1 False =
      Some (Inr (trajectory s, False))"
    using run fl by (simp add: simulate_landing_def)
  from trajectory_times[OF sl] len
  have t0: "time (states (trajectory s) ! 0) = 0"
    and st: "\<forall>i. Suc i < 3 \<longrightarrow>
      time (states (trajectory s) ! Suc i) = time (states (trajectory s) ! i) + 600"
    by simp_all
  from st have "time (states (trajectory s) ! Suc 0) = time (states (trajectory s) ! 0) + 600"
    and "time (states (trajectory s) ! Suc (Suc 0)) = time (states (trajectory s) ! Suc 0) + 600"
    by simp_all
  with t0 have "time (states (trajectory s) ! 1) = 600" "time (states (trajectory s) ! 2) = 1200"
    by (simp_all add: numeral_2_eq_2)
  with sl len t0 show ?thesis by blast
qed

text \<open>
  C1, as amended.  The claim promises a landing before the safety limit whenever the
  maximum acceleration exceeds gravity; the counterexample below is such a configuration
  whose run is ended by the safety test after one pass, above the ground, with the flag
  unset.  What holds for every positive time step: the run ends (with a result or a
  fault) after at most \<open>\<lfloor>1000 / dt\<rfloor> + 1\<close> passes, that is with at most
  \<open>\<lfloor>1000 / dt\<rfloor> + 2\<close> states, either by the landing test or by the safety test.
\<close>

theorem simulate_terminates:
  assumes "0 < dt"
  shows "\<exists>y. simulate_run h v m T tol dt vc hc flag = Some y \<and>
           (\<forall>s r. y = Inr (s, r) \<longrightarrow>
              length (states (trajectory s)) \<le> Suc (Suc (nat \<lfloor>1000 / dt\<rfloor>)) \<and>
              (r = Touchdown \<and> altitude (current_state s) \<le> 0 \<or>
               r = Safety_break \<and> 1000 < time (current_state s)))"
proof (cases "m = 0")
  case True
  then show ?thesis by (simp add: simulate_run_def py_div_def)
next
  case False
  let ?s0 = "initial_sim_state h v (T / m) flag"
  have "1000 < time (current_state ?s0) + real (Suc (nat \<lfloor>1000 / dt\<rfloor>)) * dt"
    using step_count_bound[OF assms] by (simp add: initial_sim_state_def Let_def)
  from landing_loop_terminates[OF assms this, of vc hc]
  obtain y where y: "landing_loop dt vc hc ?s0 = Some y"
    and bound: "\<forall>s' r. y = Inr (s', r) \<longrightarrow> length (states (trajectory s')) \<le>
                  length (states (trajectory ?s0)) + Suc (nat \<lfloor>1000 / dt\<rfloor>)"
    by blast
  have len0: "length (states (trajectory ?s0)) = 1"
    by (simp add: initial_sim_state_def Let_def append_state_def)
  have run: "simulate_run h v m T tol dt vc hc flag = Some y"
    using False y by (simp add: simulate_run_def py_div_def)
  have "length (states (trajectory s)) \<le> Suc (Suc (nat \<lfloor>1000 / dt\<rfloor>)) \<and>
        (r = Touchdown \<and> altitude (current_state s) \<le> 0 \<or>
         r = Safety_break \<and> 1000 < time (current_state s))" if "y = Inr (s, r)" for s r
  proof -
    from that y have l: "landing_loop dt vc hc ?s0 = Some (Inr (s, r))" by simp
    from bound that len0 have "length (states (trajectory s)) \<le> Suc (Suc (nat \<lfloor>1000 / dt\<rfloor>))"
      by simp
    moreover have "r = Touchdown \<and> altitude (current_state s) \<le> 0 \<or>
         r = Safety_break \<and> 1000 < time (current_state s)"
      using landing_loop_stop(2,3)[OF l] by (cases r) simp_all
    ultimately show ?thesis by simp
  qed
  with run show ?thesis by blast
qed

theorem simulate_terminates_witness:
  "(0::real) < 600 \<and>
   (\<exists>s. simulate_run 100 (- 50) 1000 20000 (1/2) 600 0 1 False = Some (Inr (s, Safety_break)) \<and>
        length (states (trajectory s)) \<le> 3 \<and> 1000 < time (current_state s))"
proof -
  obtain s where run: "simulate_run 100 (- 50) 1000 20000 (1/2) 600 0 1 False =
      Some (Inr (s, Safety_break))"
    using run_600[of False] by blast
  have dt: "(0::real) < 600" by simp
  from simulate_terminates[OF dt, of 100 "- 50" 1000 20000 "1/2" 0 1 False] run
  have "length (states (trajectory s)) \<le> Suc (Suc (nat \<lfloor>1000 / 600 :: real\<rfloor>)) \<and>
        1000 < time (current_state s)"
    by simp
  moreover have "nat \<lfloor>1000 / 600 :: real\<rfloor> = 1" by simp
  ultimately show ?thesis using run by auto
qed

theorem simulate_safety_break_counterexample:
  "calculate_gravity 100 = Inr (- 49040574504587 / 30178638400000) \<and>
   \<bar>- 49040574504587 / 30178638400000\<bar> < (20000 / 1000 :: real) \<and>
   (0::real) < 100 \<and> (0::real) < 2000 \<and>
   map_option (map_sum id snd) (simulate_run 100 (- 50) 1000 20000 (1/2) 2000 0 1 False) =
     Some (Inr Safety_break) \<and>
   map_option (map_sum id snd) (simulate_landing 100 (- 50) 1000 20000 (1/2) 2000 0 1 False) =
     Some (Inr False) \<and>
   map_option (map_sum id (length \<circ> states \<circ> fst))
     (simulate_landing 100 (- 50) 1000 20000 (1/2) 2000 0 1 False) = Some (Inr 2) \<and>
   \<not> (1::real) \<le> 1000 / 2000"
proof -
  obtain s where run: "simulate_run 100 (- 50) 1000 20000 (1/2) 2000 0 1 False =
      Some (Inr (s, Safety_break))"
    and len: "length (states (trajectory s)) = 2" and fl: "solution_found s = False"
    using run_2000[of False] by blast
  have "calculate_gravity 100 = Inr (- 49040574504587 / 30178638400000)"
    by (simp add: calculate_gravity_def py_div_def G_const_def M_moon_def R_moon_def)
  with run len fl show ?thesis by (simp add: simulate_landing_def)
qed

text \<open>
  C2, as amended.  \<^verbatim>\<open>simulate_landing\<close> returns the trajectory only.  The status is the
  global \<^verbatim>\<open>solution_found\<close>: a run that ends by the landing test sets it, a run that ends by
  the safety test leaves it as it was before the call, so after a run it holds exactly
  when it held before or the run ended by the landing test.  The counterexample is a run
  ended by the safety test after which the flag is set, because it was set before.
\<close>

theorem landed_flag_is_global:
  assumes "simulate_run h v m T tol dt vc hc flag = Some (Inr (s, r))"
  shows "simulate_landing h v m T tol dt vc hc flag =
           Some (Inr (trajectory s, solution_found s)) \<and>
         solution_found s = (flag \<or> r = Touchdown) \<and>
         (r = Touchdown \<longrightarrow> solution_found s \<and> altitude (current_state s) \<le> 0) \<and>
         (r = Safety_break \<longrightarrow> solution_found s = flag \<and> 1000 < time (current_state s))"
proof -
  from assms have "m \<noteq> 0" by (auto simp: simulate_run_def py_div_def)
  with assms have l: "landing_loop dt vc hc (initial_sim_state h v (T / m) flag) = Some (Inr (s, r))"
    by (simp add: simulate_run_def py_div_def)
  have "solution_found (initial_sim_state h v (T / m) flag) = flag"
    by (simp add: initial_sim_state_def Let_def)
  with landing_loop_stop[OF l] assms show ?thesis
    by (auto simp: simulate_landing_def)
qed

theorem landed_flag_is_global_witness:
  "(\<exists>s. simulate_run 100 (- 50) 1000 20000 (1/2) 2000 0 1 True = Some (Inr (s, Safety_break)) \<and>
        simulate_landing 100 (- 50) 1000 20000 (1/2) 2000 0 1 True =
          Some (Inr (trajectory s, True)) \<and> 1000 < time (current_state s)) \<and>
   (\<exists>s. simulate_run 100 (- 50) 1000 0 (1/2) 10 0 1 False = Some (Inr (s, Touchdown)) \<and>
        simulate_landing 100 (- 50) 1000 0 (1/2) 10 0 1 False =
          Some (Inr (trajectory s, True)) \<and> altitude (current_state s) \<le> 0)"
proof -
  obtain s1 where r1: "simulate_run 100 (- 50) 1000 20000 (1/2) 2000 0 1 True =
      Some (Inr (s1, Safety_break))"
    using run_2000[of True] by blast
  obtain s2 where r2: "simulate_run 100 (- 50) 1000 0 (1/2) 10 0 1 False =
      Some (Inr (s2, Touchdown))"
    using run_free_fall[of False] by blast
  from landed_flag_is_global[OF r1] landed_flag_is_global[OF r2] r1 r2 show ?thesis by auto
qed

theorem landed_flag_counterexample:
  "map_option (map_sum id snd) (simulate_run 100 (- 50) 1000 20000 (1/2) 2000 0 1 True) =
     Some (Inr Safety_break) \<and>
   map_option (map_sum id snd) (simulate_landing 100 (- 50) 1000 20000 (1/2) 2000 0 1 True) =
     Some (Inr True)"
proof -
  obtain s where run: "simulate_run 100 (- 50) 1000 20000 (1/2) 2000 0 1 True =
      Some (Inr (s, Safety_break))" and fl: "solution_found s = True"
    using run_2000[of True] by blast
  then show ?thesis by (simp add: simulate_landing_def)
qed

section \<open>The overshoot branch\<close>

text \<open>
  Gravity is negative above the surface.  A pass whose target velocity equals the
  velocity, taken with no thrust while the rocket still rises after the step, divides zero
  by zero.  At 100 m and 50 m/s the free-fall speed lies between 1000/19 and 500/9.
\<close>

lemma gravity_negative:
  assumes "0 < h" and "calculate_gravity h = Inr g"
  shows "g < 0"
proof -
  have "0 < (R_moon + h)\<^sup>2" using assms(1) by (simp add: R_moon_def)
  moreover have "0 < G_const * M_moon" by (simp add: G_const_def M_moon_def)
  ultimately have "- G_const * M_moon / (R_moon + h)\<^sup>2 < 0"
    by (simp add: divide_neg_pos)
  with assms(2) show ?thesis
    by (auto simp: calculate_gravity_def py_div_def split: if_splits)
qed

lemma loop_body_zero_error:
  assumes g: "calculate_gravity h = Inr g" and nz: "mt + g \<noteq> 0"
    and tv: "sqrt ((- v) ^ 2 + 2 * (- g) * h) * vc = - v"
    and tier: "\<not> h \<le> - (v ^ 2) / (2 * (mt + g)) * hc"
    and fire: "0 < v + g * dt"
  shows "loop_body dt vc hc
           \<lparr>current_state = \<lparr>altitude = h, velocity = v, time = t\<rparr>, trajectory = tr,
            max_thrust = mt, solution_found = f\<rparr> = Inl DivisionByZero"
  using assms
  by (simp add: loop_body_def bind_err_def Let_def py_div_def select_thrust_def
      overshoot_guard_def)

lemma gravity_100: "calculate_gravity 100 = Inr (- 49040574504587 / 30178638400000)"
  by (simp add: calculate_gravity_def py_div_def G_const_def M_moon_def R_moon_def)

lemma free_fall_speed_bounds:
  "1000 / 19 \<le> sqrt ((- (- 50)) ^ 2 + 2 * (- (- 49040574504587 / 30178638400000)) * 100)"
  "sqrt ((- (- 50)) ^ 2 + 2 * (- (- 49040574504587 / 30178638400000)) * 100) < 500 / 9"
proof -
  show "1000 / 19 \<le> sqrt ((- (- 50)) ^ 2 + 2 * (- (- 49040574504587 / 30178638400000)) * 100)"
    by (rule real_le_rsqrt) (simp add: power2_eq_square)
  show "sqrt ((- (- 50)) ^ 2 + 2 * (- (- 49040574504587 / 30178638400000)) * 100) < 500 / 9"
    by (rule real_less_lsqrt) (simp_all add: power2_eq_square)
qed

text \<open>
  C5, as amended.  The overshoot branch has no defensive handling: it divides the velocity
  error by its absolute value as it is.  For coefficients that are not negative, a time
  step that is not negative and a positive altitude, the branch is never entered with a
  velocity error of zero, so this division has a non-zero divisor and the pass divides by
  zero only when the stopping-distance divisor \<open>2 * (max_thrust + g)\<close> is zero.  The
  witness is a pass that enters the branch (the scenario of the scripts with the
  coefficients 0.5 and 1.5 and a step of 2000 s).  With a negative \<open>velocity_change\<close> the
  division by zero occurs: in the counterexample the altitude and the velocity are chosen
  so that the free-fall speed is 5/3 of the velocity, and \<open>velocity_change\<close> is \<open>- 3/5\<close>;
  the first pass selects no thrust, enters the branch and finds the target velocity equal
  to the velocity.
\<close>

theorem overshoot_guard_nominal:
  assumes h: "0 < altitude (current_state s)" and vc: "0 \<le> vc" and hc: "0 \<le> hc"
    and dt: "0 \<le> dt"
    and g: "calculate_gravity (altitude (current_state s)) = Inr g"
    and rd: "py_div (- (velocity (current_state s) ^ 2)) (2 * (max_thrust s + g)) = Inr rd"
    and tv: "tv = - sqrt ((- velocity (current_state s)) ^ 2 +
                          2 * (- g) * altitude (current_state s)) * vc"
    and thrust: "thrust = select_thrust (altitude (current_state s)) (velocity (current_state s))
                            rd hc tv (max_thrust s)"
  shows "(0 < velocity (current_state s) + (thrust + g) * dt \<longrightarrow>
            tv - velocity (current_state s) \<noteq> 0) \<and>
         (\<exists>a mt'. overshoot_guard (velocity (current_state s)) dt g thrust tv (max_thrust s) =
            Inr (a, mt')) \<and>
         (\<exists>s'. loop_body dt vc hc s = Inr s')"
proof -
  let ?h = "altitude (current_state s)" and ?v = "velocity (current_state s)"
  let ?mt = "max_thrust s"
  have gneg: "g < 0" using gravity_negative[OF h g] .
  have nz: "?mt + g \<noteq> 0" and rdv: "rd = - (?v ^ 2) / (2 * (?mt + g))"
    using rd by (auto simp: py_div_def split: if_splits)
  have gh: "g * ?h \<le> 0" by (rule mult_nonpos_nonneg) (use gneg h in simp_all)
  have "(- ?v) ^ 2 + 2 * (- g) * ?h = ?v ^ 2 + (- 2) * (g * ?h)" by simp
  moreover have "0 \<le> ?v ^ 2 + (- 2) * (g * ?h)"
    using gh zero_le_power2[of ?v] by linarith
  ultimately have "0 \<le> (- ?v) ^ 2 + 2 * (- g) * ?h" by (simp only:)
  then have "0 \<le> sqrt ((- ?v) ^ 2 + 2 * (- g) * ?h) * vc"
    using vc by (intro mult_nonneg_nonneg) simp_all
  then have tvle: "tv \<le> 0" by (simp add: tv)
  have key: "tv - ?v \<noteq> 0" if fire: "0 < ?v + (thrust + g) * dt"
  proof
    assume "tv - ?v = 0"
    then have eq: "?v = tv" by simp
    with tvle have vle: "?v \<le> 0" by simp
    show False
    proof (cases "?h \<le> rd * hc")
      case True
      then have th: "thrust = ?mt" by (simp add: thrust select_thrust_def)
      from fire th vle have "0 < (?mt + g) * dt" by simp
      with dt have pos: "0 < ?mt + g" by (simp add: zero_less_mult_iff)
      then have "rd \<le> 0" by (simp add: rdv divide_le_0_iff)
      with hc have "rd * hc \<le> 0" by (simp add: mult_nonpos_nonneg)
      with True h show False by simp
    next
      case False
      with eq have th: "thrust = 0" by (simp add: thrust select_thrust_def)
      have "g * dt \<le> 0" by (rule mult_nonpos_nonneg) (use gneg dt in simp_all)
      with fire th vle show False by simp
    qed
  qed
  have guard: "\<exists>a mt'. overshoot_guard ?v dt g thrust tv ?mt = Inr (a, mt')"
    using key gneg by (auto simp: overshoot_guard_def Let_def py_div_def bind_err_def)
  then obtain a mt' where og: "overshoot_guard ?v dt g thrust tv ?mt = Inr (a, mt')" by blast
  have "\<exists>s'. loop_body dt vc hc s = Inr s'"
    using g rd og tv thrust by (simp add: loop_body_def bind_err_def Let_def)
  with key guard show ?thesis by blast
qed

theorem overshoot_guard_nominal_witness:
  "0 < altitude (current_state (initial_sim_state 100 (- 50) 20 False)) \<and>
   (0::real) \<le> 1 / 2 \<and> (0::real) \<le> 3 / 2 \<and> (0::real) \<le> 2000 \<and>
   calculate_gravity 100 = Inr (- 49040574504587 / 30178638400000) \<and>
   select_thrust 100 (- 50) (- ((- 50) ^ 2) / (2 * (20 + - 49040574504587 / 30178638400000)))
     (3 / 2)
     (- sqrt ((- (- 50)) ^ 2 + 2 * (- (- 49040574504587 / 30178638400000)) * 100) * (1 / 2))
     20 = 16 \<and>
   (0::real) < - 50 + (16 + - 49040574504587 / 30178638400000) * 2000 \<and>
   - sqrt ((- (- 50)) ^ 2 + 2 * (- (- 49040574504587 / 30178638400000)) * 100) * (1 / 2)
     - (- 50) \<noteq> 0 \<and>
   (\<exists>a mt'. overshoot_guard (- 50) 2000 (- 49040574504587 / 30178638400000) 16
       (- sqrt ((- (- 50)) ^ 2 + 2 * (- (- 49040574504587 / 30178638400000)) * 100) * (1 / 2))
       20 = Inr (a, mt')) \<and>
   (\<exists>s'. loop_body 2000 (1 / 2) (3 / 2) (initial_sim_state 100 (- 50) 20 False) = Inr s')"
proof -
  let ?s = "initial_sim_state 100 (- 50) 20 False"
  let ?g = "- 49040574504587 / 30178638400000 :: real"
  let ?rd = "- ((- 50) ^ 2) / (2 * (20 + ?g))"
  let ?q = "sqrt ((- (- 50)) ^ 2 + 2 * (- ?g) * 100)"
  let ?tv = "- ?q * (1 / 2)"
  have cs: "altitude (current_state ?s) = 100" "velocity (current_state ?s) = - 50"
    "max_thrust ?s = 20"
    by (simp_all add: initial_sim_state_def Let_def)
  have h: "0 < altitude (current_state ?s)" by (simp add: cs)
  have g: "calculate_gravity (altitude (current_state ?s)) = Inr ?g"
    by (simp add: cs gravity_100)
  have rd: "py_div (- (velocity (current_state ?s) ^ 2)) (2 * (max_thrust ?s + ?g)) = Inr ?rd"
    by (simp add: cs py_div_def)
  have tv: "?tv = - sqrt ((- velocity (current_state ?s)) ^ 2 +
                          2 * (- ?g) * altitude (current_state ?s)) * (1 / 2)"
    by (simp add: cs)
  have t1: "\<not> 100 \<le> ?rd * (3 / 2)" by simp
  have "?q * (1 / 2) < 500 / 9 * (1 / 2)"
    by (rule mult_strict_right_mono) (use free_fall_speed_bounds(2) in simp_all)
  then have t2: "- 50 < ?tv" by simp
  have th: "select_thrust 100 (- 50) ?rd (3 / 2) ?tv 20 = 16"
    using t1 t2 by (simp add: select_thrust_def)
  have thrust: "16 = select_thrust (altitude (current_state ?s)) (velocity (current_state ?s))
                       ?rd (3 / 2) ?tv (max_thrust ?s)"
    using th by (simp add: cs)
  have fire: "(0::real) < - 50 + (16 + ?g) * 2000" by simp
  note n = overshoot_guard_nominal[OF h _ _ _ g rd tv thrust, of 2000]
  from n fire have "?tv - (- 50) \<noteq> 0"
    and "\<exists>a mt'. overshoot_guard (- 50) 2000 ?g 16 ?tv 20 = Inr (a, mt')"
    and "\<exists>s'. loop_body 2000 (1 / 2) (3 / 2) ?s = Inr s'"
    by (simp_all add: cs)
  with h th fire gravity_100 show ?thesis by simp
qed

theorem overshoot_guard_division_counterexample:
  "calculate_gravity (49040574504587 / 1250000000000) =
     Inr (- 7662589766341718750000000000000000000 / 4715082363984907742934198480484040569) \<and>
   - sqrt ((- (18390215439220125000 / 2171424040574504587)) ^ 2 +
           2 * (- (- 7662589766341718750000000000000000000 /
                     4715082363984907742934198480484040569)) *
           (49040574504587 / 1250000000000)) * (- 3 / 5) =
     18390215439220125000 / 2171424040574504587 \<and>
   select_thrust (49040574504587 / 1250000000000)
     (18390215439220125000 / 2171424040574504587)
     (- ((18390215439220125000 / 2171424040574504587) ^ 2) /
        (2 * (20 + - 7662589766341718750000000000000000000 /
                     4715082363984907742934198480484040569)))
     1 (18390215439220125000 / 2171424040574504587) 20 = 0 \<and>
   (0::real) < 18390215439220125000 / 2171424040574504587 +
     (0 + - 7662589766341718750000000000000000000 / 4715082363984907742934198480484040569) *
     (1 / 20) \<and>
   overshoot_guard (18390215439220125000 / 2171424040574504587) (1 / 20)
     (- 7662589766341718750000000000000000000 / 4715082363984907742934198480484040569) 0
     (18390215439220125000 / 2171424040574504587) 20 = Inl DivisionByZero \<and>
   loop_body (1 / 20) (- 3 / 5) 1
     (initial_sim_state (49040574504587 / 1250000000000)
        (18390215439220125000 / 2171424040574504587) (20000 / 1000) False) =
     Inl DivisionByZero"
proof -
  let ?h = "49040574504587 / 1250000000000 :: real"
  let ?v = "18390215439220125000 / 2171424040574504587 :: real"
  let ?g = "- 7662589766341718750000000000000000000 / 4715082363984907742934198480484040569 :: real"
  have g: "calculate_gravity ?h = Inr ?g"
    by (simp add: calculate_gravity_def py_div_def G_const_def M_moon_def R_moon_def
        power2_eq_square)
  have sq: "sqrt ((- ?v) ^ 2 + 2 * (- ?g) * ?h) = 30650359065366875000 / 2171424040574504587"
    by (rule real_sqrt_unique) (simp_all add: power2_eq_square)
  have tv: "sqrt ((- ?v) ^ 2 + 2 * (- ?g) * ?h) * (- 3 / 5) = - ?v"
    unfolding sq by simp
  then have tv': "- sqrt ((- ?v) ^ 2 + 2 * (- ?g) * ?h) * (- 3 / 5) = ?v" by simp
  have nz: "20 + ?g \<noteq> 0" by simp
  have tier: "\<not> ?h \<le> - (?v ^ 2) / (2 * (20 + ?g)) * 1" by (simp add: power2_eq_square)
  have th: "select_thrust ?h ?v (- (?v ^ 2) / (2 * (20 + ?g))) 1 ?v 20 = 0"
    using tier by (simp add: select_thrust_def)
  have fire: "0 < ?v + ?g * (1 / 20)" by simp
  then have fire': "0 < ?v + (0 + ?g) * (1 / 20)" by simp
  have og: "overshoot_guard ?v (1 / 20) ?g 0 ?v 20 = Inl DivisionByZero"
    using fire by (simp add: overshoot_guard_def Let_def py_div_def bind_err_def)
  have body: "loop_body (1 / 20) (- 3 / 5) 1 (initial_sim_state ?h ?v (20000 / 1000) False) =
      Inl DivisionByZero"
    unfolding initial_sim_state_def Let_def
    using loop_body_zero_error[OF g nz tv tier fire] by simp
  from g tv' th fire' og body show ?thesis by (intro conjI)
qed

section \<open>Runs without thrust\<close>

lemma free_fall_step:
  assumes "max_thrust a = 0" and "loop_body dt vc hc a = Inr b"
  shows "max_thrust b = 0 \<and>
         (\<exists>g. calculate_gravity (altitude (current_state a)) = Inr g \<and>
              velocity (current_state b) = velocity (current_state a) + g * dt \<and>
              altitude (current_state b) =
                altitude (current_state a) + velocity (current_state b) * dt)"
  using assms
  by (auto simp: loop_body_def bind_err_def Let_def select_thrust_def overshoot_guard_def
      py_div_def split: sum.splits if_splits)

lemma free_fall_body:
  assumes inv: "free_fall dt a" and body: "loop_body dt vc hc a = Inr b"
  shows "free_fall dt b"
proof -
  let ?xs = "states (trajectory a)"
  have mt: "max_thrust a = 0" and ne: "?xs \<noteq> []" and la: "last ?xs = current_state a"
    using inv by (simp_all add: free_fall_def)
  have tb: "states (trajectory b) = ?xs @ [current_state b]"
    using loop_body_result(2)[OF body] by (simp add: append_state_def)
  from free_fall_step[OF mt body] obtain g where mb: "max_thrust b = 0"
    and g: "calculate_gravity (altitude (current_state a)) = Inr g"
    and v: "velocity (current_state b) = velocity (current_state a) + g * dt"
    and h: "altitude (current_state b) =
              altitude (current_state a) + velocity (current_state b) * dt"
    by blast
  have "\<exists>g. calculate_gravity (altitude ((?xs @ [current_state b]) ! i)) = Inr g \<and>
          velocity ((?xs @ [current_state b]) ! Suc i) =
            velocity ((?xs @ [current_state b]) ! i) + g * dt \<and>
          altitude ((?xs @ [current_state b]) ! Suc i) =
            altitude ((?xs @ [current_state b]) ! i) +
            velocity ((?xs @ [current_state b]) ! Suc i) * dt"
    if "Suc i < length (?xs @ [current_state b])" for i
  proof (cases "Suc i < length ?xs")
    case True
    then show ?thesis using inv by (simp add: free_fall_def nth_append)
  next
    case False
    with that have i: "Suc i = length ?xs" by simp
    then have "i = length ?xs - 1" by simp
    then have "?xs ! i = current_state a" using ne la by (simp add: last_conv_nth)
    with i g v h show ?thesis by (simp add: nth_append)
  qed
  with tb ne mb show ?thesis by (simp add: free_fall_def)
qed

lemma length_body:
  assumes "n \<le> length (states (trajectory a))" and "loop_body dt vc hc a = Inr b"
  shows "n \<le> length (states (trajectory b))"
  using assms loop_body_result(2)[OF assms(2)] by (simp add: append_state_def)

lemma landing_loop_first_step:
  assumes "0 < altitude (current_state s)"
    and "landing_loop dt vc hc s = Some (Inr (s', r))"
  shows "Suc (length (states (trajectory s))) \<le> length (states (trajectory s'))"
proof -
  from assms obtain b where b: "loop_body dt vc hc s = Inr b"
    and rest: "(if 1000 < time (current_state b) then Some (Inr (b, Safety_break))
                else landing_loop dt vc hc b) = Some (Inr (s', r))"
    by (subst (asm) landing_loop.simps) (auto split: sum.splits)
  have lb: "Suc (length (states (trajectory s))) \<le> length (states (trajectory b))"
    using loop_body_result(2)[OF b] by (simp add: append_state_def)
  show ?thesis
  proof (cases "1000 < time (current_state b)")
    case True
    with rest lb show ?thesis by simp
  next
    case False
    with rest have run: "landing_loop dt vc hc b = Some (Inr (s', r))" by simp
    show ?thesis
      by (rule landing_loop_invariant[OF run,
            where I = "\<lambda>a. Suc (length (states (trajectory s))) \<le> length (states (trajectory a))"])
         (use lb in \<open>auto intro: length_body\<close>)
  qed
qed


lemma run_unpowered:
  "\<exists>s. simulate_run 100 (- 50) 1000 0 (1/2) 1 (1/2) (3/2) flag = Some (Inr (s, Touchdown)) \<and>
       length (states (trajectory s)) = 3 \<and> solution_found s"
  apply (simp add: simulate_run_def py_div_def initial_sim_state_def append_state_def)
  apply (subst landing_loop.simps)
  apply (simp add: eval_defs)
  apply (subst landing_loop.simps)
  apply (simp add: eval_defs)
  apply (subst landing_loop.simps)
  apply (simp add: eval_defs)
  done

text \<open>
  C6, as amended.  \<^verbatim>\<open>simulate_landing\<close> has no outcome for a rocket without propulsion.
  With \<open>max_thrust_newtons = 0\<close> and a positive initial height, a run that returns has
  taken at least one step beyond the initial state, and each of its steps is free fall:
  the velocity changes by gravity times \<open>dt\<close>, the altitude by the new velocity times
  \<open>dt\<close>.  The test for zero thrust exists only in \<^verbatim>\<open>landing\<close> of \<^verbatim>\<open>ksp_simul.py\<close>, which
  then returns at once, without a value and without a command to the vehicle.
\<close>

theorem zero_thrust_free_fall:
  assumes h: "0 < h"
    and run: "simulate_run h v m 0 tol dt vc hc flag = Some (Inr (s, r))"
  shows "landing h v m 0 vc hc final_height celestialBody dt = Inr (None, []) \<and>
         2 \<le> length (states (trajectory s)) \<and>
         (\<forall>i. Suc i < length (states (trajectory s)) \<longrightarrow>
            (\<exists>g. calculate_gravity (altitude (states (trajectory s) ! i)) = Inr g \<and>
                 velocity (states (trajectory s) ! Suc i) =
                   velocity (states (trajectory s) ! i) + g * dt \<and>
                 altitude (states (trajectory s) ! Suc i) =
                   altitude (states (trajectory s) ! i) +
                   velocity (states (trajectory s) ! Suc i) * dt))"
proof -
  from run have m: "m \<noteq> 0" by (auto simp: simulate_run_def py_div_def)
  with run have l: "landing_loop dt vc hc (initial_sim_state h v 0 flag) = Some (Inr (s, r))"
    by (simp add: simulate_run_def py_div_def)
  have "0 < altitude (current_state (initial_sim_state h v 0 flag))"
    using h by (simp add: initial_sim_state_def Let_def)
  from landing_loop_first_step[OF this l]
  have len: "2 \<le> length (states (trajectory s))"
    by (simp add: initial_sim_state_def Let_def append_state_def)
  have "free_fall dt s"
  proof (rule landing_loop_invariant[OF l, where I = "free_fall dt"])
    show "free_fall dt (initial_sim_state h v 0 flag)"
      by (simp add: free_fall_def initial_sim_state_def Let_def append_state_def)
  next
    fix a b
    assume "free_fall dt a" and "loop_body dt vc hc a = Inr b"
    then show "free_fall dt b" by (rule free_fall_body)
  next
    fix a
    assume "free_fall dt a"
    then show "free_fall dt (a\<lparr>solution_found := True\<rparr>)" by (simp add: free_fall_def)
  qed
  then have "\<forall>i. Suc i < length (states (trajectory s)) \<longrightarrow>
            (\<exists>g. calculate_gravity (altitude (states (trajectory s) ! i)) = Inr g \<and>
                 velocity (states (trajectory s) ! Suc i) =
                   velocity (states (trajectory s) ! i) + g * dt \<and>
                 altitude (states (trajectory s) ! Suc i) =
                   altitude (states (trajectory s) ! i) +
                   velocity (states (trajectory s) ! Suc i) * dt)"
    by (simp add: free_fall_def)
  moreover have "landing h v m 0 vc hc final_height celestialBody dt = Inr (None, [])"
    by (simp add: landing_def)
  ultimately show ?thesis using len by blast
qed

theorem zero_thrust_free_fall_witness:
  "(0::real) < 100 \<and>
   (\<exists>s. simulate_run 100 (- 50) 1000 0 (1/2) 1 (1/2) (3/2) False = Some (Inr (s, Touchdown)) \<and>
        length (states (trajectory s)) = 3 \<and>
        velocity (states (trajectory s) ! 1) = - 50 + (- 49040574504587 / 30178638400000) * 1 \<and>
        altitude (states (trajectory s) ! 1) = 100 + velocity (states (trajectory s) ! 1) * 1) \<and>
   landing 100 (- 50) 1000 0 (1/2) (3/2) 3
     \<lparr>mass = 734767309 * 10 ^ 14, equatorial_radius = 1737100\<rparr> 1 = Inr (None, [])"
proof -
  obtain s where run: "simulate_run 100 (- 50) 1000 0 (1/2) 1 (1/2) (3/2) False =
      Some (Inr (s, Touchdown))" and len: "length (states (trajectory s)) = 3"
    using run_unpowered[of False] by blast
  have h: "(0::real) < 100" by simp
  note zt = zero_thrust_free_fall[OF h run, of 3
      "\<lparr>mass = 734767309 * 10 ^ 14, equatorial_radius = 1737100\<rparr>"]
  have s0: "states (trajectory s) ! 0 = \<lparr>altitude = 100, velocity = - 50, time = 0\<rparr>"
    using stepwise_run[OF run] by (simp add: stepwise_def)
  from zt len obtain g where g: "calculate_gravity (altitude (states (trajectory s) ! 0)) = Inr g"
    and v: "velocity (states (trajectory s) ! Suc 0) = velocity (states (trajectory s) ! 0) + g * 1"
    and a: "altitude (states (trajectory s) ! Suc 0) =
        altitude (states (trajectory s) ! 0) + velocity (states (trajectory s) ! Suc 0) * 1"
    by (metis Suc_lessI lessI numeral_3_eq_3 zero_less_Suc less_Suc_eq)
  from g s0 have "g = - 49040574504587 / 30178638400000"
    by (simp add: calculate_gravity_def py_div_def G_const_def M_moon_def R_moon_def)
  with v a s0 run len zt show ?thesis by simp
qed

theorem zero_thrust_counterexample:
  "map_option (map_sum id (length \<circ> states \<circ> fst))
     (simulate_landing 100 (- 50) 1000 0 (1/2) 1 (1/2) (3/2) False) = Some (Inr 3) \<and>
   map_option (map_sum id snd)
     (simulate_landing 100 (- 50) 1000 0 (1/2) 1 (1/2) (3/2) False) = Some (Inr True)"
proof -
  obtain s where "simulate_run 100 (- 50) 1000 0 (1/2) 1 (1/2) (3/2) False =
      Some (Inr (s, Touchdown))" and "length (states (trajectory s)) = 3" and "solution_found s"
    using run_unpowered[of False] by blast
  then show ?thesis by (simp add: simulate_landing_def)
qed

section \<open>The exhaustive search\<close>

text \<open>
  With a time step that is not negative no cost is negative, so no cost equals the
  initial value \<open>- 1\<close> of \<^verbatim>\<open>min_cost\<close>, and each pass of the inner loop keeps the invariant.
\<close>

lemma time_nonneg_run:
  assumes dt: "0 \<le> dt" and run: "simulate_run h v m T tol dt vc hc flag = Some (Inr (s, r))"
  shows "0 \<le> time (current_state s)"
proof -
  from run have "m \<noteq> 0" by (auto simp: simulate_run_def py_div_def)
  with run have l: "landing_loop dt vc hc (initial_sim_state h v (T / m) flag) = Some (Inr (s, r))"
    by (simp add: simulate_run_def py_div_def)
  show ?thesis
  proof (rule landing_loop_invariant[OF l, where I = "\<lambda>a. 0 \<le> time (current_state a)"])
    show "0 \<le> time (current_state (initial_sim_state h v (T / m) flag))"
      by (simp add: initial_sim_state_def Let_def)
  next
    fix a b
    assume "0 \<le> time (current_state a)" and "loop_body dt vc hc a = Inr b"
    then show "0 \<le> time (current_state b)"
      using loop_body_result(1)[of dt vc hc a b] dt by simp
  next
    fix a :: sim_state
    assume "0 \<le> time (current_state a)"
    then show "0 \<le> time (current_state (a\<lparr>solution_found := True\<rparr>))" by simp
  qed
qed

lemma simulate_scenario_cost:
  assumes dt: "0 \<le> cfg_dt sc"
    and sim: "simulate_scenario sc vc hc f = Some (Inr (tr, f'))"
  shows "states tr \<noteq> []" and "calculate_landing_cost tr = Inr (cost_of tr)"
    and "0 \<le> cost_of tr"
proof -
  from sim obtain s r where run: "simulate_run (cfg_initial_height sc) (cfg_initial_velocity sc)
      (cfg_rocket_mass sc) (cfg_max_thrust_newtons sc) 0.5 (cfg_dt sc) vc hc f = Some (Inr (s, r))"
    and tr: "tr = trajectory s"
    unfolding simulate_scenario_def simulate_landing_Inr by blast
  from stepwise_run[OF run] have ne: "states tr \<noteq> []"
    and la: "last (states tr) = current_state s"
    by (simp_all add: stepwise_def tr)
  from time_nonneg_run[OF dt run] la have "0 \<le> time (last (states tr))" by simp
  then show "0 \<le> cost_of tr" by (simp add: cost_of_def)
  show "states tr \<noteq> []" by (rule ne)
  show "calculate_landing_cost tr = Inr (cost_of tr)"
    using ne by (simp add: calculate_landing_cost_nonempty cost_of_def)
qed


lemma search_body_inv:
  assumes dt: "0 \<le> cfg_dt sc" and inv: "search_inv sc cells st"
    and body: "search_body sc vc hc st = Some (Inr st')"
  shows "search_inv sc (cells @ [(vc, hc)]) st'"
proof -
  let ?n = "length cells" and ?ts = "trajectories st"
  from body obtain tr flag where
    sim: "simulate_scenario sc vc hc (found st) = Some (Inr (tr, flag))"
    by (auto simp: search_body_def bind_run_def split: option.splits sum.splits)
  note c = simulate_scenario_cost[OF dt sim]
  let ?c = "cost_of tr"
  let ?st1 = "st\<lparr>found := flag, trajectories := ?ts @ [tr]\<rparr>"
  let ?new = "min_cost st = - 1 \<or> ?c < min_cost st"
  have st': "st' = (if ?new
                    then (record_solution ?st1 ?c tr vc hc)\<lparr>attempt := attempt st + 1\<rparr>
                    else ?st1\<lparr>attempt := attempt st + 1\<rparr>)"
    using body sim c(2)
    by (auto simp: search_body_def bind_run_def Let_def record_solution_def)
  have att: "attempt st = int ?n" and len: "length ?ts = ?n"
    and old: "\<And>j. j < ?n \<Longrightarrow>
        (\<exists>f f'. simulate_scenario sc (fst (cells ! j)) (snd (cells ! j)) f =
                  Some (Inr (?ts ! j, f'))) \<and>
        states (?ts ! j) \<noteq> [] \<and> 0 \<le> cost_of (?ts ! j)"
    using inv by (simp_all add: search_inv_def)
  have ts': "trajectories st' = ?ts @ [tr]" and att': "attempt st' = int (Suc ?n)"
    using st' att by (simp_all add: record_solution_def)
  have cells: "\<And>j. j < Suc ?n \<Longrightarrow>
        (\<exists>f f'. simulate_scenario sc (fst ((cells @ [(vc, hc)]) ! j))
                  (snd ((cells @ [(vc, hc)]) ! j)) f =
                  Some (Inr ((?ts @ [tr]) ! j, f'))) \<and>
        states ((?ts @ [tr]) ! j) \<noteq> [] \<and> 0 \<le> cost_of ((?ts @ [tr]) ! j)"
  proof -
    fix j assume "j < Suc ?n"
    show "(\<exists>f f'. simulate_scenario sc (fst ((cells @ [(vc, hc)]) ! j))
                  (snd ((cells @ [(vc, hc)]) ! j)) f =
                  Some (Inr ((?ts @ [tr]) ! j, f'))) \<and>
        states ((?ts @ [tr]) ! j) \<noteq> [] \<and> 0 \<le> cost_of ((?ts @ [tr]) ! j)"
    proof (cases "j < ?n")
      case True
      then show ?thesis using old[OF True] len by (simp add: nth_append)
    next
      case False
      with \<open>j < Suc ?n\<close> have "j = ?n" by simp
      then show ?thesis using sim c len by (auto simp: nth_append)
    qed
  qed
  have best: "\<exists>k < Suc ?n.
           solution_attempt st' = int k \<and> solution_trajectory st' = Some ((?ts @ [tr]) ! k) \<and>
           optimal_dv st' = fst ((cells @ [(vc, hc)]) ! k) \<and>
           optimal_dh st' = snd ((cells @ [(vc, hc)]) ! k) \<and>
           min_cost st' = cost_of ((?ts @ [tr]) ! k) \<and>
           (\<forall>j < Suc ?n. min_cost st' \<le> cost_of ((?ts @ [tr]) ! j)) \<and>
           (\<forall>j < k. min_cost st' < cost_of ((?ts @ [tr]) ! j))"
  proof (cases "cells = []")
    case True
    then have "min_cost st = - 1" using inv by (simp add: search_inv_def)
    with st' True len att show ?thesis by (simp add: record_solution_def)
  next
    case False
    with inv obtain k where k: "k < ?n" and sa: "solution_attempt st = int k"
      and stj: "solution_trajectory st = Some (?ts ! k)"
      and dv: "optimal_dv st = fst (cells ! k)" and dh: "optimal_dh st = snd (cells ! k)"
      and mc: "min_cost st = cost_of (?ts ! k)"
      and le: "\<And>j. j < ?n \<Longrightarrow> min_cost st \<le> cost_of (?ts ! j)"
      and lt: "\<And>j. j < k \<Longrightarrow> min_cost st < cost_of (?ts ! j)"
      by (auto simp: search_inv_def)
    have nonneg: "0 \<le> min_cost st" using old[OF k] mc by simp
    show ?thesis
    proof (cases "?c < min_cost st")
      case True
      have "\<forall>j < Suc ?n. ?c \<le> cost_of ((?ts @ [tr]) ! j)"
        using True le len by (auto simp: nth_append less_Suc_eq dest!: le)
      moreover have "\<forall>j < ?n. ?c < cost_of ((?ts @ [tr]) ! j)"
        using True le len by (auto simp: nth_append dest!: le)
      ultimately show ?thesis
        using st' True len att
        by (intro exI[of _ ?n]) (simp add: record_solution_def nth_append)
    next
      case nlt: False
      with nonneg have keep: "\<not> ?new" by simp
      have "\<forall>j < Suc ?n. min_cost st \<le> cost_of ((?ts @ [tr]) ! j)"
        using nlt le len by (auto simp: nth_append less_Suc_eq)
      moreover have "\<forall>j < k. min_cost st < cost_of ((?ts @ [tr]) ! j)"
        using lt k len by (auto simp: nth_append)
      ultimately show ?thesis
        using st' keep k len sa stj dv dh mc
        by (intro exI[of _ k]) (simp add: nth_append)
    qed
  qed
  show ?thesis
    unfolding search_inv_def
    using att' ts' len cells best by simp
qed


lemma height_loop_inv:
  assumes dt: "0 \<le> cfg_dt sc"
  shows "search_inv sc cells st \<Longrightarrow> height_loop sc vc hs st = Some (Inr st') \<Longrightarrow>
         search_inv sc (cells @ map (Pair vc) hs) st'"
proof (induction hs arbitrary: cells st)
  case Nil
  then show ?case by simp
next
  case (Cons hc hs)
  from Cons.prems(2) obtain st1 where b: "search_body sc vc hc st = Some (Inr st1)"
    and rest: "height_loop sc vc hs st1 = Some (Inr st')"
    by (auto simp: bind_run_def split: option.splits sum.splits)
  from search_body_inv[OF dt Cons.prems(1) b]
  have "search_inv sc (cells @ [(vc, hc)]) st1" .
  from Cons.IH[OF this rest] show ?case by simp
qed

lemma velocity_loop_inv:
  assumes dt: "0 \<le> cfg_dt sc"
  shows "search_inv sc cells st \<Longrightarrow> velocity_loop sc vs hs st = Some (Inr st') \<Longrightarrow>
         search_inv sc (cells @ List.product vs hs) st'"
proof (induction vs arbitrary: cells st)
  case Nil
  then show ?case by simp
next
  case (Cons vc vs)
  from Cons.prems(2) obtain st1 where b: "height_loop sc vc hs st = Some (Inr st1)"
    and rest: "velocity_loop sc vs hs st1 = Some (Inr st')"
    by (auto simp: bind_run_def split: option.splits sum.splits)
  from height_loop_inv[OF dt Cons.prems(1) b]
  have "search_inv sc (cells @ map (Pair vc) hs) st1" .
  from Cons.IH[OF this rest] show ?case by simp
qed

lemma search_inv_initial: "search_inv sc [] initial_search_state"
  by (simp add: search_inv_def initial_search_state_def)

text \<open>
  Two kinds of cells of the long-step scenario: with \<open>velocity_change = 0\<close> the rocket
  brakes at 80 percent and the overshoot branch is taken; with \<open>velocity_change = 1\<close> it
  coasts.
\<close>

lemma loop_body_coast:
  assumes g: "calculate_gravity h = Inr g" and nz: "mt + g \<noteq> 0"
    and tier1: "\<not> h \<le> - (v ^ 2) / (2 * (mt + g)) * hc"
    and tier2: "\<not> v < - sqrt ((- v) ^ 2 + 2 * (- g) * h) * vc"
    and nofire: "\<not> 0 < v + g * dt"
  shows "loop_body dt vc hc
           \<lparr>current_state = \<lparr>altitude = h, velocity = v, time = t\<rparr>, trajectory = tr,
            max_thrust = mt, solution_found = f\<rparr> =
         Inr \<lparr>current_state = \<lparr>altitude = h + (v + g * dt) * dt, velocity = v + g * dt,
                                time = t + dt\<rparr>,
              trajectory = append_state tr \<lparr>altitude = h + (v + g * dt) * dt,
                                            velocity = v + g * dt, time = t + dt\<rparr>,
              max_thrust = mt, solution_found = f\<rparr>"
  using assms
  by (simp add: loop_body_def bind_err_def Let_def py_div_def select_thrust_def
      overshoot_guard_def)

lemma landing_loop_one_step:
  "\<not> altitude (current_state s) \<le> 0 \<Longrightarrow> loop_body dt vc hc s = Inr b \<Longrightarrow>
   1000 < time (current_state b) \<Longrightarrow> landing_loop dt vc hc s = Some (Inr (b, Safety_break))"
  by (subst landing_loop.simps) simp

lemma cell_braking:
  "hc = 1 \<or> hc = 3 / 2 \<Longrightarrow>
   simulate_scenario long_step_scenario 0 hc flag =
   Some (Inr (\<lparr>states = [\<lparr>altitude = 100, velocity = - 50, time = 0\<rparr>,
                           \<lparr>altitude = 100 + (- 50 + (16 - 49040574504587 / 30178638400000) * 2000) * 2000,
                            velocity = - 50 + (16 - 49040574504587 / 30178638400000) * 2000,
                            time = 2000\<rparr>]\<rparr>, flag))"
  apply (simp add: simulate_scenario_def long_step_scenario_def simulate_landing_def
      simulate_run_def py_div_def initial_sim_state_def append_state_def)
  apply (subst landing_loop.simps)
  apply (auto simp add: eval_defs)
  done

lemma cell_coasting:
  "hc = 1 \<or> hc = 3 / 2 \<Longrightarrow>
   simulate_scenario long_step_scenario 1 hc flag =
   Some (Inr (\<lparr>states = [\<lparr>altitude = 100, velocity = - 50, time = 0\<rparr>,
                           \<lparr>altitude = 100 + (- 50 + (- 49040574504587 / 30178638400000) * 2000) * 2000,
                            velocity = - 50 + (- 49040574504587 / 30178638400000) * 2000,
                            time = 2000\<rparr>]\<rparr>, flag))"
proof -
  assume hc: "hc = 1 \<or> hc = 3 / 2"
  let ?g = "- 49040574504587 / 30178638400000 :: real"
  have g: "calculate_gravity 100 = Inr ?g"
    by (simp add: calculate_gravity_def py_div_def G_const_def M_moon_def R_moon_def)
  have nz: "20 + ?g \<noteq> 0" by simp
  have t1: "\<not> 100 \<le> - ((- 50) ^ 2) / (2 * (20 + ?g)) * hc" using hc by auto
  have "50 \<le> sqrt ((- (- 50)) ^ 2 + 2 * (- ?g) * 100)"
    by (rule real_le_rsqrt) simp
  then have t2: "\<not> - 50 < - sqrt ((- (- 50)) ^ 2 + 2 * (- ?g) * 100) * 1" by simp
  have nf: "\<not> 0 < - 50 + ?g * 2000" by simp
  have s0: "initial_sim_state 100 (- 50) 20 flag =
      \<lparr>current_state = \<lparr>altitude = 100, velocity = - 50, time = 0\<rparr>,
       trajectory = append_state \<lparr>states = []\<rparr> \<lparr>altitude = 100, velocity = - 50, time = 0\<rparr>,
       max_thrust = 20, solution_found = flag\<rparr>"
    by (simp add: initial_sim_state_def Let_def)
  note body = loop_body_coast[OF g nz t1 t2 nf, of 0 "append_state \<lparr>states = []\<rparr>
      \<lparr>altitude = 100, velocity = - 50, time = 0\<rparr>" flag, folded s0]
  have "landing_loop 2000 1 hc (initial_sim_state 100 (- 50) 20 flag) =
      Some (Inr (\<lparr>current_state = \<lparr>altitude = 100 + (- 50 + ?g * 2000) * 2000,
                                     velocity = - 50 + ?g * 2000, time = 0 + 2000\<rparr>,
                   trajectory = append_state
                     (append_state \<lparr>states = []\<rparr> \<lparr>altitude = 100, velocity = - 50, time = 0\<rparr>)
                     \<lparr>altitude = 100 + (- 50 + ?g * 2000) * 2000,
                      velocity = - 50 + ?g * 2000, time = 0 + 2000\<rparr>,
                   max_thrust = 20, solution_found = flag\<rparr>, Safety_break))"
    by (rule landing_loop_one_step[OF _ body]) (simp_all add: s0)
  then show ?thesis
    by (simp add: simulate_scenario_def long_step_scenario_def simulate_landing_def
      simulate_run_def py_div_def append_state_def)
qed


lemma grid_run:
  "\<exists>st. grid_search long_step_scenario [0, 1] [1, 3 / 2] = Some (Inr st) \<and>
        solution_attempt st = 2 \<and> optimal_dv st = 1 \<and> optimal_dh st = 1 \<and>
        min_cost st = 2000 + 2 * \<bar>- 50 + (- 49040574504587 / 30178638400000) * 2000\<bar>"
  by (simp add: grid_search_def initial_search_state_def search_body_def bind_run_def
      cell_braking cell_coasting calculate_landing_cost_nonempty record_solution_def Let_def)

text \<open>
  C3.  The search evaluates every combination in row-major order (all heights for the
  first velocity coefficient, then for the second, ...).  When it returns, the recorded
  minimum is the cost of the recorded trajectory, no evaluated cell costs less, and every
  cell before the recorded one costs strictly more: among cells of least cost the first
  is kept.  The scenario's time step is not negative (0.05 in the script).
\<close>

theorem grid_search_minimum:
  assumes dt: "0 \<le> cfg_dt sc" and run: "grid_search sc vs hs = Some (Inr st)"
  shows "length (trajectories st) = length (List.product vs hs) \<and>
         (\<forall>j < length (List.product vs hs).
            (\<exists>f f'. simulate_scenario sc (fst (List.product vs hs ! j))
                      (snd (List.product vs hs ! j)) f =
                    Some (Inr (trajectories st ! j, f'))) \<and>
            (\<exists>c. calculate_landing_cost (trajectories st ! j) = Inr c \<and> min_cost st \<le> c)) \<and>
         (List.product vs hs \<noteq> [] \<longrightarrow>
            (\<exists>k < length (List.product vs hs).
               solution_attempt st = int k \<and>
               solution_trajectory st = Some (trajectories st ! k) \<and>
               optimal_dv st = fst (List.product vs hs ! k) \<and>
               optimal_dh st = snd (List.product vs hs ! k) \<and>
               calculate_landing_cost (trajectories st ! k) = Inr (min_cost st) \<and>
               (\<forall>j < k. \<exists>c. calculate_landing_cost (trajectories st ! j) = Inr c \<and>
                              min_cost st < c)))"
proof -
  let ?cells = "List.product vs hs"
  have inv: "search_inv sc ?cells st"
    using velocity_loop_inv[OF dt search_inv_initial, of vs hs st] run
    by (simp add: grid_search_def)
  have cost: "calculate_landing_cost (trajectories st ! j) = Inr (cost_of (trajectories st ! j))"
    if "j < length ?cells" for j
    using inv that by (simp add: search_inv_def calculate_landing_cost_nonempty cost_of_def)
  have len: "length (trajectories st) = length ?cells"
    using inv by (simp add: search_inv_def)
  have all: "(\<exists>f f'. simulate_scenario sc (fst (?cells ! j)) (snd (?cells ! j)) f =
                    Some (Inr (trajectories st ! j, f'))) \<and>
             (\<exists>c. calculate_landing_cost (trajectories st ! j) = Inr c \<and> min_cost st \<le> c)"
    if j: "j < length ?cells" for j
  proof -
    from j have ne: "?cells \<noteq> []" by (auto simp del: length_product)
    with inv have "min_cost st \<le> cost_of (trajectories st ! j)"
      using j by (auto simp: search_inv_def simp del: length_product)
    with cost[OF j] inv j show ?thesis by (simp add: search_inv_def)
  qed
  have best: "\<exists>k < length ?cells.
               solution_attempt st = int k \<and>
               solution_trajectory st = Some (trajectories st ! k) \<and>
               optimal_dv st = fst (?cells ! k) \<and> optimal_dh st = snd (?cells ! k) \<and>
               calculate_landing_cost (trajectories st ! k) = Inr (min_cost st) \<and>
               (\<forall>j < k. \<exists>c. calculate_landing_cost (trajectories st ! j) = Inr c \<and>
                              min_cost st < c)"
    if ne: "?cells \<noteq> []"
  proof -
    from inv ne obtain k where k: "k < length ?cells"
      and sa: "solution_attempt st = int k"
      and stj: "solution_trajectory st = Some (trajectories st ! k)"
      and dv: "optimal_dv st = fst (?cells ! k)" and dh: "optimal_dh st = snd (?cells ! k)"
      and mc: "min_cost st = cost_of (trajectories st ! k)"
      and lt: "\<And>j. j < k \<Longrightarrow> min_cost st < cost_of (trajectories st ! j)"
      by (auto simp: search_inv_def)
    have "\<exists>c. calculate_landing_cost (trajectories st ! j) = Inr c \<and> min_cost st < c"
      if "j < k" for j
      using cost[of j] lt[OF that] that k by simp
    with k sa stj dv dh mc cost[OF k] show ?thesis by auto
  qed
  from len all best show ?thesis by blast
qed

theorem grid_search_minimum_witness:
  "0 \<le> cfg_dt long_step_scenario \<and>
   (\<exists>st. grid_search long_step_scenario [0, 1] [1, 3 / 2] = Some (Inr st) \<and>
         length (trajectories st) = 4 \<and> solution_attempt st = 2 \<and>
         solution_trajectory st = Some (trajectories st ! 2) \<and>
         optimal_dv st = 1 \<and> optimal_dh st = 1 \<and>
         calculate_landing_cost (trajectories st ! 2) = Inr (min_cost st) \<and>
         (\<exists>c. calculate_landing_cost (trajectories st ! 0) = Inr c \<and> min_cost st < c) \<and>
         (\<exists>c. calculate_landing_cost (trajectories st ! 1) = Inr c \<and> min_cost st < c) \<and>
         (\<exists>c. calculate_landing_cost (trajectories st ! 3) = Inr c \<and> min_cost st \<le> c))"
proof -
  obtain st where run: "grid_search long_step_scenario [0, 1] [1, 3 / 2] = Some (Inr st)"
    and sa: "solution_attempt st = 2" and dv: "optimal_dv st = 1" and dh: "optimal_dh st = 1"
    using grid_run by blast
  have dt: "0 \<le> cfg_dt long_step_scenario" by (simp add: long_step_scenario_def)
  note gs = grid_search_minimum[OF dt run]
  from gs have len: "length (trajectories st) = 4" by simp
  from gs obtain k where k: "k < 4" and sk: "solution_attempt st = int k"
    and tk: "solution_trajectory st = Some (trajectories st ! k)"
    and ck: "calculate_landing_cost (trajectories st ! k) = Inr (min_cost st)"
    and lt: "\<forall>j < k. \<exists>c. calculate_landing_cost (trajectories st ! j) = Inr c \<and> min_cost st < c"
    by auto
  from sk sa have k2: "k = 2" by simp
  from gs have "\<exists>c. calculate_landing_cost (trajectories st ! 3) = Inr c \<and> min_cost st \<le> c"
    by simp
  with run len sa dv dh tk ck lt k2 dt show ?thesis by auto
qed

section \<open>The genetic algorithm\<close>

text \<open>
  One generation replaces the tracked best cost by the least cost of the generation when
  that is strictly lower, and leaves it alone otherwise.
\<close>

lemma bound_le_refl: "bound_le b b"
  by (cases b) simp_all

lemma bound_le_trans: "bound_le a b \<Longrightarrow> bound_le b c \<Longrightarrow> bound_le a c"
  by (cases a; cases b; cases c) simp_all

lemma below_bound_le: "below c b \<Longrightarrow> bound_le (Finite c) b"
  by (cases b) simp_all

lemma generation_best_cost:
  assumes "generation rnd n sc st = Some (Inr st')"
  shows "\<exists>evaluations flag.
           evaluate sc (population st) ([], ga_found st) = Some (Inr (evaluations, flag)) \<and>
           evaluations \<noteq> [] \<and>
           best_cost st' =
             (if below (Min (set (map (fst \<circ> snd) evaluations))) (best_cost st)
              then Finite (Min (set (map (fst \<circ> snd) evaluations))) else best_cost st)"
proof -
  from assms obtain evaluations flag where
    ev: "evaluate sc (population st) ([], ga_found st) = Some (Inr (evaluations, flag))"
    by (auto simp: generation_def bind_run_def split: option.splits sum.splits)
  let ?sorted = "sort_key (\<lambda>x. fst (snd x)) evaluations"
  from assms ev obtain b others where so: "?sorted = b # others"
    by (auto simp: generation_def bind_run_def split: list.splits)
  have ne: "evaluations \<noteq> []" using so by auto
  have "sorted (map (\<lambda>x. fst (snd x)) ?sorted)" by simp
  with so have "\<forall>x \<in> set ?sorted. fst (snd b) \<le> fst (snd x)" by auto
  then have le: "\<forall>x \<in> set evaluations. fst (snd b) \<le> fst (snd x)" by simp
  have "b \<in> set ?sorted" using so by simp
  then have mem: "b \<in> set evaluations" by simp
  have mn: "Min (set (map (fst \<circ> snd) evaluations)) = fst (snd b)"
    by (rule Min_eqI) (use le mem in auto)
  from assms ev so have "best_cost st' =
      (if below (fst (snd b)) (best_cost st) then Finite (fst (snd b)) else best_cost st)"
    by (auto simp: generation_def bind_run_def Let_def split: sum.splits prod.splits)
  with ev ne mn show ?thesis by auto
qed


lemma generation_monotone:
  assumes "generation rnd n sc st = Some (Inr st')"
  shows "bound_le (best_cost st') (best_cost st)"
proof -
  from generation_best_cost[OF assms] obtain c where
    "best_cost st' = (if below c (best_cost st) then Finite c else best_cost st)"
    by blast
  then show ?thesis by (simp add: below_bound_le bound_le_refl)
qed

lemma generations_loop_monotone:
  "generations_loop rnd n sc k st = Some (Inr st') \<Longrightarrow> bound_le (best_cost st') (best_cost st)"
proof (induction k arbitrary: st)
  case 0
  then show ?case by (simp add: bound_le_refl)
next
  case (Suc k)
  from Suc.prems obtain st1 where g: "generation rnd n sc st = Some (Inr st1)"
    and rest: "generations_loop rnd n sc k st1 = Some (Inr st')"
    by (auto simp: bind_run_def split: option.splits sum.splits)
  from Suc.IH[OF rest] generation_monotone[OF g] show ?case
    by (rule bound_le_trans)
qed

lemma generations_loop_add:
  "generations_loop rnd n sc (i + d) st =
   bind_run (generations_loop rnd n sc i st) (generations_loop rnd n sc d)"
proof (induction i arbitrary: st)
  case 0
  then show ?case by (simp add: bind_run_def)
next
  case (Suc i)
  show ?case
  proof (cases "generation rnd n sc st")
    case None
    then show ?thesis by (simp add: bind_run_def)
  next
    case (Some y)
    then show ?thesis by (cases y) (simp_all add: bind_run_def Suc.IH)
  qed
qed

text \<open>
  Runs of the long-step scenario for any coefficients of a range: up to
  \<open>velocity_change = 0.9\<close> the rocket brakes at 80 percent and the overshoot branch is
  taken, from \<open>0.95\<close> on it coasts.  With them, two generations of a population of two.
\<close>

lemma loop_body_brake:
  assumes g: "calculate_gravity h = Inr g" and nz: "mt + g \<noteq> 0" and gz: "g \<noteq> 0"
    and tier1: "\<not> h \<le> - (v ^ 2) / (2 * (mt + g)) * hc"
    and tier2: "v < - sqrt ((- v) ^ 2 + 2 * (- g) * h) * vc"
    and fire: "0 < v + (mt * 0.8 + g) * dt"
  shows "loop_body dt vc hc
           \<lparr>current_state = \<lparr>altitude = h, velocity = v, time = t\<rparr>, trajectory = tr,
            max_thrust = mt, solution_found = f\<rparr> =
         Inr \<lparr>current_state = \<lparr>altitude = h + (v + (g + mt * 0.8) * dt) * dt,
                                velocity = v + (g + mt * 0.8) * dt, time = t + dt\<rparr>,
              trajectory = append_state tr \<lparr>altitude = h + (v + (g + mt * 0.8) * dt) * dt,
                                            velocity = v + (g + mt * 0.8) * dt, time = t + dt\<rparr>,
              max_thrust = mt / (- g), solution_found = f\<rparr>"
  using assms
  by (simp add: loop_body_def bind_err_def Let_def py_div_def select_thrust_def
      overshoot_guard_def)

lemma initial_state_100:
  "initial_sim_state 100 (- 50) 20 flag =
      \<lparr>current_state = \<lparr>altitude = 100, velocity = - 50, time = 0\<rparr>,
       trajectory = append_state \<lparr>states = []\<rparr> \<lparr>altitude = 100, velocity = - 50, time = 0\<rparr>,
       max_thrust = 20, solution_found = flag\<rparr>"
  by (simp add: initial_sim_state_def Let_def)

lemma coasting_run:
  assumes vc: "19 / 20 \<le> vc" and hc: "0 \<le> hc"
  shows "simulate_scenario long_step_scenario vc hc flag =
   Some (Inr (\<lparr>states = [\<lparr>altitude = 100, velocity = - 50, time = 0\<rparr>,
                           \<lparr>altitude = 100 + (- 50 + (- 49040574504587 / 30178638400000) * 2000) * 2000,
                            velocity = - 50 + (- 49040574504587 / 30178638400000) * 2000,
                            time = 2000\<rparr>]\<rparr>, flag))"
proof -
  let ?g = "- 49040574504587 / 30178638400000 :: real"
  let ?q = "sqrt ((- (- 50)) ^ 2 + 2 * (- ?g) * 100)"
  have nz: "20 + ?g \<noteq> 0" by simp
  have "- ((- 50) ^ 2) / (2 * (20 + ?g)) * hc \<le> 0"
    using hc by (simp add: mult_nonpos_nonneg)
  then have t1: "\<not> 100 \<le> - ((- 50) ^ 2) / (2 * (20 + ?g)) * hc" by simp
  have "1000 / 19 * (19 / 20) \<le> ?q * vc"
    by (rule mult_mono) (use vc free_fall_speed_bounds(1) in simp_all)
  then have t2: "\<not> - 50 < - ?q * vc" by simp
  have nf: "\<not> 0 < - 50 + ?g * 2000" by simp
  note body = loop_body_coast[OF gravity_100 nz t1 t2 nf, of 0 "append_state \<lparr>states = []\<rparr>
      \<lparr>altitude = 100, velocity = - 50, time = 0\<rparr>" flag, folded initial_state_100]
  have "landing_loop 2000 vc hc (initial_sim_state 100 (- 50) 20 flag) =
      Some (Inr (\<lparr>current_state = \<lparr>altitude = 100 + (- 50 + ?g * 2000) * 2000,
                                     velocity = - 50 + ?g * 2000, time = 0 + 2000\<rparr>,
                   trajectory = append_state
                     (append_state \<lparr>states = []\<rparr> \<lparr>altitude = 100, velocity = - 50, time = 0\<rparr>)
                     \<lparr>altitude = 100 + (- 50 + ?g * 2000) * 2000,
                      velocity = - 50 + ?g * 2000, time = 0 + 2000\<rparr>,
                   max_thrust = 20, solution_found = flag\<rparr>, Safety_break))"
    by (rule landing_loop_one_step[OF _ body]) (simp_all add: initial_state_100)
  then show ?thesis
    by (simp add: simulate_scenario_def long_step_scenario_def simulate_landing_def
      simulate_run_def py_div_def append_state_def)
qed

lemma braking_run:
  assumes vc: "0 \<le> vc" "vc \<le> 9 / 10" and hc: "0 \<le> hc"
  shows "simulate_scenario long_step_scenario vc hc flag =
   Some (Inr (\<lparr>states = [\<lparr>altitude = 100, velocity = - 50, time = 0\<rparr>,
                           \<lparr>altitude = 100 + (- 50 + (16 - 49040574504587 / 30178638400000) * 2000) * 2000,
                            velocity = - 50 + (16 - 49040574504587 / 30178638400000) * 2000,
                            time = 2000\<rparr>]\<rparr>, flag))"
proof -
  let ?g = "- 49040574504587 / 30178638400000 :: real"
  let ?q = "sqrt ((- (- 50)) ^ 2 + 2 * (- ?g) * 100)"
  have nz: "20 + ?g \<noteq> 0" and gz: "?g \<noteq> 0" by simp_all
  have "- ((- 50) ^ 2) / (2 * (20 + ?g)) * hc \<le> 0"
    using hc by (simp add: mult_nonpos_nonneg)
  then have t1: "\<not> 100 \<le> - ((- 50) ^ 2) / (2 * (20 + ?g)) * hc" by simp
  have q0: "0 \<le> ?q" by simp
  have "?q * vc \<le> ?q * (9 / 10)" by (rule mult_left_mono) (use vc q0 in simp_all)
  also have "\<dots> < 500 / 9 * (9 / 10)"
    by (rule mult_strict_right_mono) (use free_fall_speed_bounds(2) in simp_all)
  finally have t2: "- 50 < - ?q * vc" by simp
  have fire: "0 < - 50 + (20 * 0.8 + ?g) * 2000" by simp
  note body = loop_body_brake[OF gravity_100 nz gz t1 t2 fire, of 0 "append_state \<lparr>states = []\<rparr>
      \<lparr>altitude = 100, velocity = - 50, time = 0\<rparr>" flag, folded initial_state_100]
  have "landing_loop 2000 vc hc (initial_sim_state 100 (- 50) 20 flag) =
      Some (Inr (\<lparr>current_state = \<lparr>altitude = 100 + (- 50 + (?g + 20 * 0.8) * 2000) * 2000,
                                     velocity = - 50 + (?g + 20 * 0.8) * 2000, time = 0 + 2000\<rparr>,
                   trajectory = append_state
                     (append_state \<lparr>states = []\<rparr> \<lparr>altitude = 100, velocity = - 50, time = 0\<rparr>)
                     \<lparr>altitude = 100 + (- 50 + (?g + 20 * 0.8) * 2000) * 2000,
                      velocity = - 50 + (?g + 20 * 0.8) * 2000, time = 0 + 2000\<rparr>,
                   max_thrust = 20 / (- ?g), solution_found = flag\<rparr>, Safety_break))"
    by (rule landing_loop_one_step[OF _ body]) (simp_all add: initial_state_100)
  then show ?thesis
    by (simp add: simulate_scenario_def long_step_scenario_def simulate_landing_def
      simulate_run_def py_div_def append_state_def)
qed

lemma sample_population:
  "initial_ga_state sample_draws 2 flag =
     \<lparr>population = [(9 / 10, 1), (9 / 10, 1)], best_cost = Infinity, best_solution = None,
      drawn = 4, ga_found = flag\<rparr>"
  by (simp add: initial_ga_state_def random_population_def uniform_def sample_draws_def
      numeral_2_eq_2)

lemma first_generation:
  "\<exists>tr. generation sample_draws 2 long_step_scenario
     \<lparr>population = [(9 / 10, 1), (9 / 10, 1)], best_cost = Infinity, best_solution = None,
      drawn = 4, ga_found = False\<rparr> =
   Some (Inr \<lparr>population = [(9 / 10, 1), (49 / 50, 1)],
              best_cost = Finite (2000 + 2 * \<bar>- 50 + (16 - 49040574504587 / 30178638400000) * 2000\<bar>),
              best_solution = Some tr, drawn = 9, ga_found = False\<rparr>)"
  by (simp add: generation_def bind_run_def braking_run calculate_landing_cost_nonempty
      choice_def uniform_def sample_draws_def Let_def)

lemma second_generation:
  "\<exists>tr. generation sample_draws 2 long_step_scenario
     \<lparr>population = [(9 / 10, 1), (49 / 50, 1)],
      best_cost = Finite (2000 + 2 * \<bar>- 50 + (16 - 49040574504587 / 30178638400000) * 2000\<bar>),
      best_solution = Some tr0, drawn = 9, ga_found = False\<rparr> =
   Some (Inr \<lparr>population = [(49 / 50, 1), (22 / 25, 9 / 10)],
              best_cost = Finite (2000 + 2 * \<bar>- 50 + (- 49040574504587 / 30178638400000) * 2000\<bar>),
              best_solution = Some tr, drawn = 14, ga_found = False\<rparr>)"
  by (simp add: generation_def bind_run_def braking_run coasting_run
      calculate_landing_cost_nonempty choice_def uniform_def sample_draws_def Let_def)

lemma simulate_landing_nonempty:
  assumes "simulate_landing h v m T tol dt vc hc flag = Some (Inr (tr, f))"
  shows "states tr \<noteq> []"
proof -
  from assms obtain s r where "simulate_run h v m T tol dt vc hc flag = Some (Inr (s, r))"
    and "tr = trajectory s"
    unfolding simulate_landing_Inr by blast
  then show ?thesis using stepwise_run[of h v m T tol dt vc hc flag s r]
    by (simp add: stepwise_def)
qed

text \<open>
  C8.  The tracked best cost never increases from one generation to a later one, and one
  generation changes it only to the least cost of that generation, and only when this is
  strictly lower than the best so far.  \<open>generations_loop \<dots> i st0\<close> is the state after
  \<open>i\<close> generations.
\<close>

theorem best_cost_monotone:
  assumes a: "generations_loop rnd n sc i st0 = Some (Inr a)"
    and b: "generations_loop rnd n sc (i + d) st0 = Some (Inr b)"
  shows "bound_le (best_cost b) (best_cost a) \<and>
         (d = 1 \<longrightarrow>
            (\<exists>evaluations flag.
               evaluate sc (population a) ([], ga_found a) = Some (Inr (evaluations, flag)) \<and>
               evaluations \<noteq> [] \<and>
               best_cost b =
                 (if below (Min (set (map (fst \<circ> snd) evaluations))) (best_cost a)
                  then Finite (Min (set (map (fst \<circ> snd) evaluations))) else best_cost a)))"
proof -
  from a b have rest: "generations_loop rnd n sc d a = Some (Inr b)"
    by (simp add: generations_loop_add bind_run_def)
  have "\<exists>evaluations flag.
               evaluate sc (population a) ([], ga_found a) = Some (Inr (evaluations, flag)) \<and>
               evaluations \<noteq> [] \<and>
               best_cost b =
                 (if below (Min (set (map (fst \<circ> snd) evaluations))) (best_cost a)
                  then Finite (Min (set (map (fst \<circ> snd) evaluations))) else best_cost a)"
    if "d = 1"
  proof -
    from rest that have "generation rnd n sc a = Some (Inr b)"
      by (auto simp: bind_run_def split: option.splits sum.splits)
    then show ?thesis by (rule generation_best_cost)
  qed
  with generations_loop_monotone[OF rest] show ?thesis by blast
qed

theorem best_cost_monotone_witness:
  "\<exists>a b. generations_loop sample_draws 2 long_step_scenario 1
            (initial_ga_state sample_draws 2 False) = Some (Inr a) \<and>
         generations_loop sample_draws 2 long_step_scenario (1 + 1)
            (initial_ga_state sample_draws 2 False) = Some (Inr b) \<and>
         best_cost a = Finite (2000 + 2 * \<bar>- 50 + (16 - 49040574504587 / 30178638400000) * 2000\<bar>) \<and>
         best_cost b = Finite (2000 + 2 * \<bar>- 50 + (- 49040574504587 / 30178638400000) * 2000\<bar>) \<and>
         bound_le (best_cost b) (best_cost a)"
proof -
  let ?st0 = "initial_ga_state sample_draws 2 False"
  obtain tr1 where g1: "generation sample_draws 2 long_step_scenario ?st0 =
      Some (Inr \<lparr>population = [(9 / 10, 1), (49 / 50, 1)],
              best_cost = Finite (2000 + 2 * \<bar>- 50 + (16 - 49040574504587 / 30178638400000) * 2000\<bar>),
              best_solution = Some tr1, drawn = 9, ga_found = False\<rparr>)"
    using first_generation unfolding sample_population by blast
  let ?a = "\<lparr>population = [(9 / 10, 1), (49 / 50, 1)],
              best_cost = Finite (2000 + 2 * \<bar>- 50 + (16 - 49040574504587 / 30178638400000) * 2000\<bar>),
              best_solution = Some tr1, drawn = 9, ga_found = False\<rparr>"
  obtain tr2 where g2: "generation sample_draws 2 long_step_scenario ?a =
      Some (Inr \<lparr>population = [(49 / 50, 1), (22 / 25, 9 / 10)],
              best_cost = Finite (2000 + 2 * \<bar>- 50 + (- 49040574504587 / 30178638400000) * 2000\<bar>),
              best_solution = Some tr2, drawn = 14, ga_found = False\<rparr>)"
    using second_generation[of tr1] by blast
  let ?b = "\<lparr>population = [(49 / 50, 1), (22 / 25, 9 / 10)],
              best_cost = Finite (2000 + 2 * \<bar>- 50 + (- 49040574504587 / 30178638400000) * 2000\<bar>),
              best_solution = Some tr2, drawn = 14, ga_found = False\<rparr>"
  have a: "generations_loop sample_draws 2 long_step_scenario 1 ?st0 = Some (Inr ?a)"
    using g1 by (simp add: bind_run_def)
  have b: "generations_loop sample_draws 2 long_step_scenario (1 + 1) ?st0 = Some (Inr ?b)"
    using g1 g2 by (simp add: bind_run_def numeral_2_eq_2)
  from best_cost_monotone[OF a b] have "bound_le (best_cost ?b) (best_cost ?a)" by blast
  with a b show ?thesis by (intro exI[of _ ?a] exI[of _ ?b]) simp
qed

text \<open>
  C10.  With a population of one and at least one generation \<^verbatim>\<open>genetic_algorithm\<close> never
  returns a result: when the simulation of the single individual returns a trajectory,
  the selection keeps \<open>1 div 2 = 0\<close> survivors and \<^verbatim>\<open>random.choice\<close> of the empty list
  raises \<^verbatim>\<open>IndexError\<close> in the first generation; otherwise the simulation itself does not
  return a trajectory.
\<close>

theorem single_individual_fails:
  assumes "0 < generations"
  shows "(\<forall>r. genetic_algorithm 1 generations initial_height initial_velocity rocket_mass
               max_thrust_newtons dt rnd flag \<noteq> Some (Inr r)) \<and>
         (\<forall>tr f. simulate_landing initial_height initial_velocity rocket_mass max_thrust_newtons
                   0.5 dt (uniform 0 1 (rnd 0)) (uniform 1 2 (rnd 1)) flag = Some (Inr (tr, f)) \<longrightarrow>
               genetic_algorithm 1 generations initial_height initial_velocity rocket_mass
                 max_thrust_newtons dt rnd flag = Some (Inl IndexOutOfRange))"
proof -
  let ?sc = "\<lparr>cfg_initial_height = initial_height, cfg_initial_velocity = initial_velocity,
             cfg_rocket_mass = rocket_mass, cfg_max_thrust_newtons = max_thrust_newtons,
             cfg_dt = dt\<rparr>"
  let ?st0 = "initial_ga_state rnd 1 flag"
  let ?ind = "(uniform 0 1 (rnd 0), uniform 1 2 (rnd 1))"
  from assms obtain n where n: "nat generations = Suc n"
    by (cases "nat generations") auto
  have pop: "population ?st0 = [?ind]"
    by (simp add: initial_ga_state_def random_population_def)
  have sim: "simulate_scenario ?sc (fst ?ind) (snd ?ind) flag =
      simulate_landing initial_height initial_velocity rocket_mass max_thrust_newtons
        0.5 dt (uniform 0 1 (rnd 0)) (uniform 1 2 (rnd 1)) flag"
    by (simp add: simulate_scenario_def)
  have fl: "ga_found ?st0 = flag" by (simp add: initial_ga_state_def)
  have rep: "reproduce rnd 1 [] ([], k) = Inl IndexOutOfRange" for k
    by (simp add: choice_def)
  have gen: "generation rnd 1 ?sc ?st0 = Some (Inl IndexOutOfRange)"
    if "simulate_landing initial_height initial_velocity rocket_mass max_thrust_newtons
          0.5 dt (uniform 0 1 (rnd 0)) (uniform 1 2 (rnd 1)) flag = Some (Inr (tr, f))" for tr f
    using that sim pop fl
      calculate_landing_cost_nonempty[OF simulate_landing_nonempty[OF that]]
    by (simp add: generation_def bind_run_def Let_def rep del: reproduce.simps)
  have nogen: "generation rnd 1 ?sc ?st0 \<noteq> Some (Inr st')" for st'
  proof (cases "simulate_landing initial_height initial_velocity rocket_mass max_thrust_newtons
          0.5 dt (uniform 0 1 (rnd 0)) (uniform 1 2 (rnd 1)) flag")
    case None
    then show ?thesis using sim pop fl by (simp add: generation_def bind_run_def)
  next
    case (Some y)
    show ?thesis
    proof (cases y)
      case (Inl e)
      with Some show ?thesis using sim pop fl by (simp add: generation_def bind_run_def)
    next
      case (Inr p)
      obtain tr f where "p = (tr, f)" by (cases p)
      with Some Inr gen[of tr f] show ?thesis by simp
    qed
  qed
  have "genetic_algorithm 1 generations initial_height initial_velocity rocket_mass
               max_thrust_newtons dt rnd flag \<noteq> Some (Inr r)" for r
    using nogen n
    by (auto simp: genetic_algorithm_def bind_run_def split: option.splits sum.splits)
  moreover have "genetic_algorithm 1 generations initial_height initial_velocity rocket_mass
                 max_thrust_newtons dt rnd flag = Some (Inl IndexOutOfRange)"
    if "simulate_landing initial_height initial_velocity rocket_mass max_thrust_newtons
          0.5 dt (uniform 0 1 (rnd 0)) (uniform 1 2 (rnd 1)) flag = Some (Inr (tr, f))" for tr f
    using gen[OF that] n by (simp add: genetic_algorithm_def bind_run_def)
  ultimately show ?thesis by blast
qed

theorem single_individual_fails_witness:
  "(0::int) < 3 \<and>
   genetic_algorithm 1 3 100 (- 50) 1000 20000 2000 sample_draws False =
     Some (Inl IndexOutOfRange)"
proof -
  have sim: "simulate_landing 100 (- 50) 1000 20000 0.5 2000 (uniform 0 1 (sample_draws 0))
      (uniform 1 2 (sample_draws 1)) False =
    Some (Inr (\<lparr>states = [\<lparr>altitude = 100, velocity = - 50, time = 0\<rparr>,
                           \<lparr>altitude = 100 + (- 50 + (16 - 49040574504587 / 30178638400000) * 2000) * 2000,
                            velocity = - 50 + (16 - 49040574504587 / 30178638400000) * 2000,
                            time = 2000\<rparr>]\<rparr>, False))"
    using braking_run[of "9 / 10" 1 False]
    by (simp add: simulate_scenario_def long_step_scenario_def uniform_def sample_draws_def)
  have g: "(0::int) < 3" by simp
  from single_individual_fails[OF g, of 100 "- 50" 1000 20000 2000 sample_draws False] sim
  have "genetic_algorithm 1 3 100 (- 50) 1000 20000 2000 sample_draws False =
     Some (Inl IndexOutOfRange)" by blast
  with g show ?thesis by blast
qed

end
